theory Spec2Isabelle
  imports Main
begin

section \<open>Python values\<close>

text \<open>
  The values that \<open>json.loads\<close> produces: \<open>None\<close>, booleans, integers, strings, lists,
  and dicts with string keys. A dict is an association list in which the first binding of
  a key is the one that counts. Numbers with a fraction or an exponent are left out: what
  \<open>str\<close> makes of them is a matter of floating-point formatting.
\<close>

datatype pyval =
    PNone
  | PBool bool
  | PInt int
  | PStr string
  | PList "pyval list"
  | PDict "(string \<times> pyval) list"

text \<open>
  The exceptions the program can meet, all of class \<open>Exception\<close>: those that Python raises
  itself, and those raised by a library call (the browser, the HTTP client, the temporary
  file, the completion service).
\<close>

datatype exn =
    AttributeError
  | TypeError
  | ValueError
  | OverflowError
  | LibraryError string

fun truthy :: "pyval \<Rightarrow> bool" where
  "truthy PNone = False"
| "truthy (PBool b) = b"
| "truthy (PInt i) = (i \<noteq> 0)"
| "truthy (PStr s) = (s \<noteq> [])"
| "truthy (PList xs) = (xs \<noteq> [])"
| "truthy (PDict kvs) = (kvs \<noteq> [])"

text \<open>
  \<open>str\<close> and \<open>repr\<close>. (\<open>str\<close> of an integer of more than 4300 digits raises; no such
  integer comes out of \<open>json.loads\<close>, which has the same limit.)
\<close>

definition digit_char :: "nat \<Rightarrow> char" where
  "digit_char d = char_of (48 + d)"

function str_nat :: "nat \<Rightarrow> string" where
  "str_nat n = (if n < 10 then [digit_char n] else str_nat (n div 10) @ [digit_char (n mod 10)])"
  by pat_completeness auto
termination
  by (relation "measure (\<lambda>n. n)") auto

declare str_nat.simps [simp del]

definition str_int :: "int \<Rightarrow> string" where
  "str_int i = (if i < 0 then CHR ''-'' # str_nat (nat (- i)) else str_nat (nat i))"

definition hex_char :: "nat \<Rightarrow> char" where
  "hex_char d = (if d < 10 then char_of (48 + d) else char_of (87 + d))"

definition repr_char :: "char \<Rightarrow> char \<Rightarrow> string" where
  "repr_char q c =
     (let n = (of_char c :: nat) in
      if c = q \<or> c = CHR 0x5C then [CHR 0x5C, c]
      else if c = CHR 0x09 then [CHR 0x5C, CHR ''t'']
      else if c = CHR 0x0A then [CHR 0x5C, CHR ''n'']
      else if c = CHR 0x0D then [CHR 0x5C, CHR ''r'']
      else if n < 32 \<or> (127 \<le> n \<and> n \<le> 160) \<or> n = 173
        then [CHR 0x5C, CHR ''x'', hex_char (n div 16), hex_char (n mod 16)]
      else [c])"

definition repr_str :: "string \<Rightarrow> string" where
  "repr_str s =
     (let q = (if CHR 0x27 \<in> set s \<and> CHR 0x22 \<notin> set s then CHR 0x22 else CHR 0x27)
      in q # concat (map (repr_char q) s) @ [q])"

fun join :: "string \<Rightarrow> string list \<Rightarrow> string" where
  "join sep [] = []"
| "join sep [x] = x"
| "join sep (x # y # ys) = x @ sep @ join sep (y # ys)"

fun py_repr :: "pyval \<Rightarrow> string" where
  "py_repr PNone = ''None''"
| "py_repr (PBool b) = (if b then ''True'' else ''False'')"
| "py_repr (PInt i) = str_int i"
| "py_repr (PStr s) = repr_str s"
| "py_repr (PList xs) = ''['' @ join '', '' (map py_repr xs) @ '']''"
| "py_repr (PDict kvs) =
     ''{'' @ join '', '' (map (\<lambda>kv. repr_str (fst kv) @ '': '' @ py_repr (snd kv)) kvs) @ ''}''"

definition py_str :: "pyval \<Rightarrow> string" where
  "py_str v = (case v of PStr s \<Rightarrow> s | _ \<Rightarrow> py_repr v)"

subsection \<open>String methods used by the driver\<close>

text \<open>
  A \<^typ>\<open>string\<close> stands for a Python \<open>str\<close> whose code points are below 256; the
  character classes below are those of Python on that range.
\<close>

definition py_lower_char :: "char \<Rightarrow> char" where
  "py_lower_char c =
     (let n = (of_char c :: nat) in
      if (65 \<le> n \<and> n \<le> 90) \<or> (192 \<le> n \<and> n \<le> 222 \<and> n \<noteq> 215)
      then char_of (n + 32) else c)"

definition py_lower :: "string \<Rightarrow> string" where
  "py_lower s = map py_lower_char s"

definition is_ascii_digit :: "char \<Rightarrow> bool" where
  "is_ascii_digit c = (48 \<le> (of_char c :: nat) \<and> (of_char c :: nat) \<le> 57)"

definition is_digit_char :: "char \<Rightarrow> bool" where
  "is_digit_char c =
     (is_ascii_digit c \<or> (of_char c :: nat) = 178 \<or> (of_char c :: nat) = 179
        \<or> (of_char c :: nat) = 185)"

definition py_isdigit :: "string \<Rightarrow> bool" where
  "py_isdigit s = (s \<noteq> [] \<and> list_all is_digit_char s)"

text \<open>
  The whitespace that \<open>int\<close> drops around a number: the ASCII whitespace \<open>\t \n \v \f \r\<close>
  and the space, and beyond ASCII the characters U+0085 and U+00A0. The separators U+001C
  to U+001F are not among them.
\<close>

definition is_space_char :: "char \<Rightarrow> bool" where
  "is_space_char c =
     (let n = (of_char c :: nat) in
      (9 \<le> n \<and> n \<le> 13) \<or> n = 32 \<or> n = 133 \<or> n = 160)"

definition py_strip :: "string \<Rightarrow> string" where
  "py_strip s = rev (dropWhile is_space_char (rev (dropWhile is_space_char s)))"

definition remove_spaces :: "string \<Rightarrow> string" where
  "remove_spaces s = filter (\<lambda>c. c \<noteq> CHR '' '') s"

fun split_on :: "char \<Rightarrow> string \<Rightarrow> string list" where
  "split_on c [] = [[]]"
| "split_on c (x # xs) =
     (if x = c then [] # split_on c xs
      else (case split_on c xs of [] \<Rightarrow> [[x]] | t # ts \<Rightarrow> (x # t) # ts))"

definition startswith :: "string \<Rightarrow> string \<Rightarrow> bool" where
  "startswith s p = (take (length p) s = p)"

subsection \<open>The builtin \<open>int\<close>\<close>

text \<open>
  \<open>int\<close> of a string: surrounding whitespace is dropped, one sign is allowed, and the rest
  is decimal digits, possibly with single underscores between them; more than 4300 digits
  are refused.
\<close>

fun wellformed_digits :: "string \<Rightarrow> bool" where
  "wellformed_digits [] = False"
| "wellformed_digits [c] = is_ascii_digit c"
| "wellformed_digits (c # d # cs) =
     (if is_ascii_digit c then wellformed_digits (d # cs)
      else c = CHR ''_'' \<and> is_ascii_digit d \<and> wellformed_digits (d # cs))"

definition digits_value :: "string \<Rightarrow> int" where
  "digits_value ds = foldl (\<lambda>a c. 10 * a + int (of_char c - 48)) 0 ds"

definition int_max_str_digits :: nat where
  "int_max_str_digits = 4300"

definition py_int_str :: "string \<Rightarrow> exn + int" where
  "py_int_str s =
     (let t = py_strip s;
          neg = (t \<noteq> [] \<and> hd t = CHR ''-'');
          body = (if t \<noteq> [] \<and> (hd t = CHR ''-'' \<or> hd t = CHR ''+'') then tl t else t);
          ds = filter is_ascii_digit body
      in if body \<noteq> [] \<and> is_ascii_digit (hd body) \<and> wellformed_digits body
            \<and> length ds \<le> int_max_str_digits
         then Inr (if neg then - digits_value ds else digits_value ds)
         else Inl ValueError)"

fun py_int :: "pyval \<Rightarrow> exn + int" where
  "py_int PNone = Inl TypeError"
| "py_int (PBool b) = Inr (if b then 1 else 0)"
| "py_int (PInt i) = Inr i"
| "py_int (PStr s) = py_int_str s"
| "py_int (PList xs) = Inl TypeError"
| "py_int (PDict kvs) = Inl TypeError"

section \<open>Effects: events, the outside world, and calls that may raise\<close>

text \<open>
  A field as \<open>get_form_fields\<close> builds it: the values under the keys \<open>ref\<close>, \<open>title\<close>,
  \<open>type\<close> and \<open>options\<close>.
\<close>

record field =
  ref :: pyval
  title :: pyval
  ftype :: pyval
  options :: "pyval list"

text \<open>The lines the program prints.\<close>

datatype message =
    MsgStep1
  | MsgFieldsError exn
  | MsgStep2
  | MsgMapping pyval
  | MsgStep4
  | MsgHandling nat pyval pyval
  | MsgUploaded string
  | MsgUnknownType pyval
  | MsgFieldException pyval exn
  | MsgAttempting
  | MsgThankYou
  | MsgNoThankYou
  | MsgFinalRaised exn
  | MsgDone

text \<open>
  Every call that leaves the program, in the order the program makes it. A key is given
  by its code points, since \<open>chr\<close> may produce any code point.
\<close>

datatype event =
    SupabaseSelect
  | RequestsGet string
  | RaiseForStatus
  | RespJson
  | ChatCompletion string "field list" pyval
  | PwStart
  | PwStop
  | Launch bool
  | NewPage
  | SetDefaultTimeout nat
  | Goto string
  | WaitForLoadState string
  | GetByRole string string
  | BtnCount
  | BtnClick nat
  | BtnElementHandle
  | Evaluate string
  | WaitForTimeout nat
  | KeyType string
  | KeyPress "nat list"
  | TmpCreate
  | TmpWrite string string
  | TmpClose string
  | Locator string
  | SetInputFiles string
  | WaitForSelector string nat
  | BrowserClose
  | Print message

text \<open>
  The outside world answers each call from the events so far: whether the call raises, and
  what it returns when it does not. The pauses of the program (\<open>time.sleep\<close>, with fixed
  and random delays) neither raise nor return anything and are left out.
\<close>

record world =
  fails :: "event list \<Rightarrow> event \<Rightarrow> exn option"
  table_rows :: "event list \<Rightarrow> pyval list"
  form_json :: "event list \<Rightarrow> pyval"
  reply_content :: "event list \<Rightarrow> string"
  json_loads :: "string \<Rightarrow> exn + pyval"
  btn_count :: "event list \<Rightarrow> nat"
  btn_handle :: "event list \<Rightarrow> bool"
  resp_content :: "event list \<Rightarrow> string"
  tmp_name :: "event list \<Rightarrow> string"
  cwd :: string

type_synonym 'a io = "event list \<Rightarrow> (exn + 'a) \<times> event list"

definition io_return :: "'a \<Rightarrow> 'a io" where
  "io_return x tr = (Inr x, tr)"

definition io_raise :: "exn \<Rightarrow> 'a io" where
  "io_raise e tr = (Inl e, tr)"

definition io_bind :: "'a io \<Rightarrow> ('a \<Rightarrow> 'b io) \<Rightarrow> 'b io" where
  "io_bind m k tr = (case m tr of (Inl e, tr') \<Rightarrow> (Inl e, tr') | (Inr x, tr') \<Rightarrow> k x tr')"

definition io_try :: "'a io \<Rightarrow> (exn \<Rightarrow> 'a io) \<Rightarrow> 'a io" where
  "io_try m h tr = (case m tr of (Inl e, tr') \<Rightarrow> h e tr' | (Inr x, tr') \<Rightarrow> (Inr x, tr'))"

definition io_lift :: "exn + 'a \<Rightarrow> 'a io" where
  "io_lift r tr = (r, tr)"

definition call :: "world \<Rightarrow> event \<Rightarrow> (event list \<Rightarrow> 'a) \<Rightarrow> 'a io" where
  "call w ev result tr =
     (case fails w tr ev of
        Some e \<Rightarrow> (Inl e, tr @ [ev])
      | None \<Rightarrow> (Inr (result tr), tr @ [ev]))"

definition call_unit :: "world \<Rightarrow> event \<Rightarrow> unit io" where
  "call_unit w ev = call w ev (\<lambda>_. ())"

definition say :: "message \<Rightarrow> unit io" where
  "say m tr = (Inr (), tr @ [Print m])"

definition ustr :: "string \<Rightarrow> nat list" where
  "ustr s = map of_char s"

section \<open>The form driver: \<open>fill_and_submit_form\<close>\<close>

definition HEADLESS :: bool where
  "HEADLESS = False"

definition os_path_join :: "string \<Rightarrow> string \<Rightarrow> string" where
  "os_path_join a b = (if a \<noteq> [] \<and> last a \<noteq> CHR ''/'' then a @ ''/'' @ b else a @ b)"

definition PITCH_DECK_PATH :: "world \<Rightarrow> string" where
  "PITCH_DECK_PATH w = os_path_join (cwd w) ''placeholder_deck.pdf''"

text \<open>\<open>d.get(k)\<close>: an attribute error when \<open>d\<close> is no dict, a type error for an unhashable key.\<close>

definition dict_get :: "pyval \<Rightarrow> pyval \<Rightarrow> exn + pyval" where
  "dict_get d k =
     (case d of
        PDict kvs \<Rightarrow>
          (case k of
             PStr s \<Rightarrow> (case map_of kvs s of Some v \<Rightarrow> Inr v | None \<Rightarrow> Inr PNone)
           | PList _ \<Rightarrow> Inl TypeError
           | PDict _ \<Rightarrow> Inl TypeError
           | _ \<Rightarrow> Inr PNone)
      | _ \<Rightarrow> Inl AttributeError)"

text \<open>\<open>answers.get(field.get("title")) or answers.get(q_ref)\<close>\<close>

definition provided_answer :: "pyval \<Rightarrow> field \<Rightarrow> exn + pyval" where
  "provided_answer answers f =
     (case dict_get answers (title f) of
        Inl e \<Rightarrow> Inl e
      | Inr a \<Rightarrow> if truthy a then Inr a else dict_get answers (ref f))"

definition py_in :: "pyval \<Rightarrow> string list \<Rightarrow> bool" where
  "py_in v ss = (case v of PStr s \<Rightarrow> s \<in> set ss | _ \<Rightarrow> False)"

definition text_types :: "string list" where
  "text_types = [''short_text'', ''email'', ''number'', ''website'', ''text'', ''long_text'']"

definition choice_types :: "string list" where
  "choice_types = [''multiple_choice'', ''picture_choice'', ''checkboxes'']"

definition safe_press_enter :: "world \<Rightarrow> unit io" where
  "safe_press_enter w = io_try (call_unit w (KeyPress (ustr ''Enter''))) (\<lambda>e. io_return ())"

text \<open>
  \<open>chr(int(key) + ord('a'))\<close>. \<open>chr\<close> raises a value error for an argument that is no code
  point, and an overflow error for one that does not fit a C \<open>int\<close>.
\<close>

definition py_chr :: "int \<Rightarrow> exn + nat list" where
  "py_chr i =
     (if 0 \<le> i \<and> i < 0x110000 then Inr [nat i]
      else if i < - (2 ^ 31) \<or> 2 ^ 31 \<le> i then Inl OverflowError
      else Inl ValueError)"

definition choice_key :: "string \<Rightarrow> exn + nat list" where
  "choice_key tok =
     (let key = py_lower tok in
      if py_isdigit key
      then (case py_int_str key of Inl e \<Rightarrow> Inl e | Inr i \<Rightarrow> py_chr (i + 97))
      else Inr (ustr key))"

primrec press_choices :: "world \<Rightarrow> string list \<Rightarrow> unit io" where
  "press_choices w [] = io_return ()"
| "press_choices w (tok # toks) =
     io_bind (io_lift (choice_key tok)) (\<lambda>key.
     io_bind (call_unit w (KeyPress key)) (\<lambda>_.
     press_choices w toks))"

primrec press_times :: "world \<Rightarrow> nat list \<Rightarrow> nat \<Rightarrow> unit io" where
  "press_times w key 0 = io_return ()"
| "press_times w key (Suc n) =
     io_bind (call_unit w (KeyPress key)) (\<lambda>_. press_times w key n)"

definition dropdown_index :: "pyval \<Rightarrow> int" where
  "dropdown_index a = (case py_int a of Inr i \<Rightarrow> i | Inl e \<Rightarrow> 1)"

text \<open>\<open>provided_answer and provided_answer.startswith("http")\<close>\<close>

definition is_url :: "pyval \<Rightarrow> exn + bool" where
  "is_url a =
     (if truthy a
      then (case a of PStr s \<Rightarrow> Inr (startswith s ''http'') | _ \<Rightarrow> Inl AttributeError)
      else Inr False)"

definition download :: "world \<Rightarrow> string \<Rightarrow> string io" where
  "download w url =
     io_bind (call w (RequestsGet url) (resp_content w)) (\<lambda>content.
     io_bind (call_unit w RaiseForStatus) (\<lambda>_.
     io_bind (call w TmpCreate (tmp_name w)) (\<lambda>name.
     io_bind (call_unit w (TmpWrite name content)) (\<lambda>_.
     io_bind (call_unit w (TmpClose name)) (\<lambda>_.
     io_return name)))))"

definition upload_path :: "world \<Rightarrow> pyval \<Rightarrow> string io" where
  "upload_path w a =
     io_bind (io_lift (is_url a)) (\<lambda>u.
       if u then download w (py_str a) else io_return (PITCH_DECK_PATH w))"

text \<open>\<open>answer = str(provided_answer) if provided_answer else "N/A"\<close>\<close>

definition answer_text :: "pyval \<Rightarrow> string" where
  "answer_text a = (if truthy a then py_str a else ''N/A'')"

definition file_input_selector :: string where
  "file_input_selector = ''input[type='' @ [CHR 0x22] @ ''file'' @ [CHR 0x22] @ '']''"

text \<open>The body of the \<open>try\<close> of one field.\<close>

definition interact :: "world \<Rightarrow> field \<Rightarrow> pyval \<Rightarrow> unit io" where
  "interact w f a =
     (if py_in (ftype f) text_types then
        io_bind (call_unit w (KeyType (answer_text a))) (\<lambda>_.
        safe_press_enter w)
      else if py_in (ftype f) choice_types then
        io_bind (if a \<noteq> PNone
                 then press_choices w (split_on CHR '','' (remove_spaces (py_str a)))
                 else io_return ()) (\<lambda>_.
        safe_press_enter w)
      else if ftype f = PStr ''dropdown'' then
        io_bind (call_unit w (KeyPress (ustr ''Tab''))) (\<lambda>_.
        io_bind (safe_press_enter w) (\<lambda>_.
        io_bind (if truthy a
                 then press_times w (ustr ''ArrowDown'') (nat (dropdown_index a))
                 else io_return ()) (\<lambda>_.
        safe_press_enter w)))
      else if ftype f = PStr ''file_upload'' then
        io_bind (upload_path w a) (\<lambda>file_path.
        io_bind (call_unit w (Locator file_input_selector)) (\<lambda>_.
        io_bind (call_unit w (SetInputFiles file_path)) (\<lambda>_.
        io_bind (say (MsgUploaded file_path)) (\<lambda>_.
        safe_press_enter w))))
      else
        io_bind (say (MsgUnknownType (ftype f))) (\<lambda>_.
        safe_press_enter w))"

text \<open>The \<open>try\<close> with its handler.\<close>

definition handle_field :: "world \<Rightarrow> field \<Rightarrow> pyval \<Rightarrow> unit io" where
  "handle_field w f a =
     io_try (interact w f a)
       (\<lambda>e. io_bind (say (MsgFieldException (ref f) e)) (\<lambda>_. safe_press_enter w))"

text \<open>The loop over the fields; \<open>idx\<close> is the index of the head of the list.\<close>

primrec fill_fields :: "world \<Rightarrow> pyval \<Rightarrow> nat \<Rightarrow> field list \<Rightarrow> unit io" where
  "fill_fields w answers idx [] = io_return ()"
| "fill_fields w answers idx (f # fs) =
     io_bind (call_unit w (WaitForTimeout 500)) (\<lambda>_.
     io_bind (io_lift (provided_answer answers f)) (\<lambda>a.
     io_bind (say (MsgHandling (idx + 1) (ftype f) (ref f))) (\<lambda>_.
     io_bind (handle_field w f a) (\<lambda>_.
     fill_fields w answers (idx + 1) fs))))"

definition click_start :: "world \<Rightarrow> unit io" where
  "click_start w =
     io_try
       (io_bind (call_unit w (GetByRole ''button'' ''Start'')) (\<lambda>_.
        io_bind (call w BtnCount (btn_count w)) (\<lambda>n.
        if n > 0 then
          io_try
            (io_bind (call_unit w (BtnClick 8000)) (\<lambda>_.
             call_unit w (WaitForTimeout 700)))
            (\<lambda>e. io_try
               (io_bind (call w BtnElementHandle (btn_handle w)) (\<lambda>eh.
                if eh then
                  io_bind (call_unit w (Evaluate ''(el) => el.click()'')) (\<lambda>_.
                  call_unit w (WaitForTimeout 700))
                else io_return ()))
               (\<lambda>e. io_return ()))
        else io_return ())))
       (\<lambda>e. io_return ())"

definition final_submit :: "world \<Rightarrow> unit io" where
  "final_submit w =
     io_bind (say MsgAttempting) (\<lambda>_.
     io_try
       (io_bind (call_unit w (KeyPress (ustr ''Control+Enter''))) (\<lambda>_.
        io_try
          (io_bind (call_unit w (WaitForSelector ''text=Thank you'' 20000)) (\<lambda>_.
           say MsgThankYou))
          (\<lambda>e. say MsgNoThankYou)))
       (\<lambda>e. say (MsgFinalRaised e)))"

text \<open>The body of the \<open>with\<close> block.\<close>

definition session :: "world \<Rightarrow> string \<Rightarrow> field list \<Rightarrow> pyval \<Rightarrow> unit io" where
  "session w url flds answers =
     io_bind (call_unit w (Launch HEADLESS)) (\<lambda>_.
     io_bind (call_unit w NewPage) (\<lambda>_.
     io_bind (call_unit w (SetDefaultTimeout 25000)) (\<lambda>_.
     io_bind (call_unit w (Goto url)) (\<lambda>_.
     io_bind (call_unit w (WaitForLoadState ''networkidle'')) (\<lambda>_.
     io_bind (click_start w) (\<lambda>_.
     io_bind (fill_fields w answers 0 flds) (\<lambda>_.
     io_bind (final_submit w) (\<lambda>_.
     io_bind (call_unit w BrowserClose) (\<lambda>_.
     say MsgDone)))))))))"

text \<open>
  \<open>with sync_playwright() as p\<close>: the context is left on every path out of the block, and
  an exception of the block is raised again afterwards.
\<close>

definition with_playwright :: "world \<Rightarrow> unit io \<Rightarrow> unit io" where
  "with_playwright w block =
     io_bind (call_unit w PwStart) (\<lambda>_ tr.
       (case block tr of
          (r, tr') \<Rightarrow>
            (case call_unit w PwStop tr' of
               (Inl e, tr'') \<Rightarrow> (Inl e, tr'')
             | (Inr u, tr'') \<Rightarrow> (r, tr''))))"

definition fill_and_submit_form :: "world \<Rightarrow> string \<Rightarrow> field list \<Rightarrow> pyval \<Rightarrow> unit io" where
  "fill_and_submit_form w url flds answers =
     io_bind (say MsgStep4) (\<lambda>_.
     with_playwright w (session w url flds answers))"

section \<open>The schema fetcher: \<open>get_form_fields\<close>\<close>

definition sum_bind :: "exn + 'a \<Rightarrow> ('a \<Rightarrow> exn + 'b) \<Rightarrow> exn + 'b" where
  "sum_bind r k = (case r of Inl e \<Rightarrow> Inl e | Inr x \<Rightarrow> k x)"

primrec sum_map :: "('a \<Rightarrow> exn + 'b) \<Rightarrow> 'a list \<Rightarrow> exn + 'b list" where
  "sum_map g [] = Inr []"
| "sum_map g (x # xs) =
     sum_bind (g x) (\<lambda>y. sum_bind (sum_map g xs) (\<lambda>ys. Inr (y # ys)))"

text \<open>\<open>d.get(key, default)\<close> with a string key\<close>

definition get_or :: "pyval \<Rightarrow> string \<Rightarrow> pyval \<Rightarrow> exn + pyval" where
  "get_or d key dflt =
     (case d of
        PDict kvs \<Rightarrow> (case map_of kvs key of Some v \<Rightarrow> Inr v | None \<Rightarrow> Inr dflt)
      | _ \<Rightarrow> Inl AttributeError)"

text \<open>What a \<open>for\<close> loop or a comprehension iterates over.\<close>

definition py_iter :: "pyval \<Rightarrow> exn + pyval list" where
  "py_iter v =
     (case v of
        PList xs \<Rightarrow> Inr xs
      | PStr s \<Rightarrow> Inr (map (\<lambda>c. PStr [c]) s)
      | PDict kvs \<Rightarrow> Inr (map (\<lambda>kv. PStr (fst kv)) kvs)
      | _ \<Rightarrow> Inl TypeError)"

definition field_options :: "pyval \<Rightarrow> exn + pyval list" where
  "field_options f =
     sum_bind (get_or f ''type'' PNone) (\<lambda>t.
       if py_in t [''multiple_choice'', ''picture_choice''] then
         sum_bind (get_or f ''properties'' (PDict [])) (\<lambda>props.
         sum_bind (get_or props ''choices'' (PList [])) (\<lambda>choices.
         sum_bind (py_iter choices) (\<lambda>cs.
         sum_map (\<lambda>c. get_or c ''label'' PNone) cs)))
       else Inr [])"

definition field_entry :: "pyval \<Rightarrow> exn + field" where
  "field_entry f =
     sum_bind (get_or f ''ref'' PNone) (\<lambda>r.
     sum_bind (get_or f ''title'' PNone) (\<lambda>t.
     sum_bind (get_or f ''type'' PNone) (\<lambda>ty.
     sum_bind (field_options f) (\<lambda>opts.
     Inr \<lparr>ref = r, title = t, ftype = ty, options = opts\<rparr>))))"

definition parse_fields :: "pyval \<Rightarrow> exn + field list" where
  "parse_fields form_data =
     sum_bind (get_or form_data ''fields'' (PList [])) (\<lambda>fl.
     sum_bind (py_iter fl) (\<lambda>entries.
     sum_map field_entry entries))"

text \<open>The body of the \<open>try\<close> of \<open>get_form_fields\<close>.\<close>

definition fetch_fields :: "world \<Rightarrow> string \<Rightarrow> field list io" where
  "fetch_fields w form_id =
     io_bind (call_unit w (RequestsGet (''https://api.typeform.com/forms/'' @ form_id))) (\<lambda>_.
     io_bind (call_unit w RaiseForStatus) (\<lambda>_.
     io_bind (call w RespJson (form_json w)) (\<lambda>form_data.
     io_lift (parse_fields form_data))))"

definition get_form_fields :: "world \<Rightarrow> string \<Rightarrow> field list io" where
  "get_form_fields w form_id =
     io_bind (say MsgStep1) (\<lambda>_.
     io_try (fetch_fields w form_id)
       (\<lambda>e. io_bind (say (MsgFieldsError e)) (\<lambda>_. io_return [])))"

section \<open>The answer synthesizer and the main loop\<close>

definition TYPEFORM_FORM_ID :: string where
  "TYPEFORM_FORM_ID = ''qedCsWYt''"

definition TYPEFORM_URL :: string where
  "TYPEFORM_URL = ''https://form.typeform.com/to/'' @ TYPEFORM_FORM_ID"

definition get_rows :: "world \<Rightarrow> pyval list io" where
  "get_rows w = call w SupabaseSelect (table_rows w)"

text \<open>
  The prompt is a fixed text around the fields and the row; the event of the completion
  call carries the model name, the fields and the row. The JSON parser is the world's.
\<close>

definition map_row_to_typeform :: "world \<Rightarrow> field list \<Rightarrow> pyval \<Rightarrow> pyval io" where
  "map_row_to_typeform w flds row =
     io_bind (say MsgStep2) (\<lambda>_.
     io_bind (call w (ChatCompletion ''gpt-5'' flds row) (reply_content w)) (\<lambda>content.
     io_lift (json_loads w content)))"

primrec run_rows :: "world \<Rightarrow> field list \<Rightarrow> pyval list \<Rightarrow> unit io" where
  "run_rows w flds [] = io_return ()"
| "run_rows w flds (row # rows) =
     io_bind (map_row_to_typeform w flds row) (\<lambda>mapping.
     io_bind (say (MsgMapping mapping)) (\<lambda>_.
     io_bind (fill_and_submit_form w TYPEFORM_URL flds mapping) (\<lambda>_.
     run_rows w flds rows)))"

definition main :: "world \<Rightarrow> unit io" where
  "main w =
     io_bind (get_rows w) (\<lambda>rows.
     io_bind (get_form_fields w TYPEFORM_FORM_ID) (\<lambda>flds.
     run_rows w flds rows))"

section \<open>Sample worlds and fields\<close>

text \<open>A world in which no call raises.\<close>

definition calm :: world where
  "calm =
     \<lparr>fails = (\<lambda>tr ev. None),
      table_rows = (\<lambda>tr. []),
      form_json = (\<lambda>tr. PDict []),
      reply_content = (\<lambda>tr. ''{}''),
      json_loads = (\<lambda>s. if s = ''{}'' then Inr (PDict []) else Inl ValueError),
      btn_count = (\<lambda>tr. 0),
      btn_handle = (\<lambda>tr. False),
      resp_content = (\<lambda>tr. ''%PDF-1.4''),
      tmp_name = (\<lambda>tr. ''/tmp/tmpk3v9x_2a''),
      cwd = ''/srv/app''\<rparr>"

text \<open>The same world, except that every call of one event raises.\<close>

definition failing_on :: "event \<Rightarrow> world" where
  "failing_on bad =
     calm\<lparr>fails := (\<lambda>tr ev. if ev = bad then Some (LibraryError ''Error'') else None)\<rparr>"

text \<open>A world in which the \<open>n\<close>-th call of the session (counted from 0) raises.\<close>

definition failing_at :: "nat \<Rightarrow> world" where
  "failing_at n =
     calm\<lparr>fails := (\<lambda>tr ev. if length tr = n then Some (LibraryError ''Error'') else None)\<rparr>"

definition sample_field :: "string \<Rightarrow> string \<Rightarrow> string \<Rightarrow> field" where
  "sample_field r t ty = \<lparr>ref = PStr r, title = PStr t, ftype = PStr ty, options = []\<rparr>"

definition falsy_answers :: pyval where
  "falsy_answers = PDict [(''Interest'', PStr ''''), (''q2'', PInt 0)]"

definition sample_form :: pyval where
  "sample_form =
     PDict [(''id'', PStr ''qedCsWYt''),
            (''fields'',
             PList [PDict [(''ref'', PStr ''q1''), (''title'', PStr ''Email''),
                           (''type'', PStr ''short_text'')],
                    PDict [(''ref'', PStr ''q2''), (''title'', PStr ''Interest''),
                           (''type'', PStr ''multiple_choice''),
                           (''properties'',
                            PDict [(''choices'',
                                    PList [PDict [(''label'', PStr ''networking'')],
                                           PDict [(''label'', PStr ''storage'')]])])]])]"

text \<open>The line printed at the head of each iteration of the loop over the fields.\<close>

fun is_handling :: "event \<Rightarrow> bool" where
  "is_handling (Print (MsgHandling i t r)) = True"
| "is_handling ev = False"

text \<open>A computation that only adds events, and only events satisfying \<open>P\<close>.\<close>

definition adds_only :: "(event \<Rightarrow> bool) \<Rightarrow> 'a io \<Rightarrow> bool" where
  "adds_only P m = (\<forall>tr. \<exists>es. snd (m tr) = tr @ es \<and> list_all P es)"

definition sample_answers :: pyval where
  "sample_answers = PDict [(''Email'', PStr ''a@b.com''), (''Interest'', PStr ''0'')]"

definition sample_fields :: "field list" where
  "sample_fields =
     [sample_field ''q1'' ''Email'' ''short_text'',
      sample_field ''q2'' ''Interest'' ''multiple_choice'']"

text \<open>
  A world in which the set-up of the session, the settle wait of each field and the
  closing of the browser return, and every other call raises.
\<close>

definition hostile :: "string \<Rightarrow> world" where
  "hostile url =
     calm\<lparr>fails :=
       (\<lambda>tr ev.
          if ev \<in> {PwStart, PwStop, Launch HEADLESS, NewPage, SetDefaultTimeout 25000, Goto url,
                    WaitForLoadState ''networkidle'', WaitForTimeout 500, BrowserClose}
          then None else Some (LibraryError ''Error''))\<rparr>"

definition sample_rows :: "pyval list" where
  "sample_rows =
     [PDict [(''email'', PStr ''a@b.com''), (''interest'', PStr ''networking'')],
      PDict [(''email'', PStr ''c@d.org''), (''interest'', PStr ''storage'')]]"

text \<open>A world with two rows, in which the completion service wraps its JSON in prose.\<close>

definition chatty :: world where
  "chatty =
     calm\<lparr>table_rows := (\<lambda>tr. sample_rows),
          reply_content := (\<lambda>tr. ''Sure! Here is the JSON: {}'')\<rparr>"

text \<open>A world in which the page dies after \<open>n\<close> events: every later call raises.\<close>

definition dead_from :: "nat \<Rightarrow> world" where
  "dead_from n =
     calm\<lparr>fails := (\<lambda>tr ev. if n \<le> length tr then Some (LibraryError ''Error'') else None)\<rparr>"

section \<open>Properties\<close>

subsection \<open>Basic facts\<close>

lemma str_nat_nonempty: "str_nat n \<noteq> []"
  by (subst str_nat.simps) simp

lemma py_str_nonempty: "truthy a \<Longrightarrow> py_str a \<noteq> []"
  by (cases a) (simp_all add: py_str_def str_int_def str_nat_nonempty)

lemma answer_text_nonempty: "answer_text a \<noteq> []"
  by (simp add: answer_text_def py_str_nonempty)

lemma safe_press_enter_run:
  "safe_press_enter w tr = (Inr (), tr @ [KeyPress (ustr ''Enter'')])"
  by (simp add: safe_press_enter_def io_try_def call_unit_def call_def io_return_def
      split: option.splits)

lemma fails_calm: "fails calm tr ev = None"
  by (simp add: calm_def)

lemma fails_failing_on:
  "fails (failing_on bad) tr ev = (if ev = bad then Some (LibraryError ''Error'') else None)"
  by (simp add: failing_on_def)

lemma fails_failing_at:
  "fails (failing_at n) tr ev = (if length tr = n then Some (LibraryError ''Error'') else None)"
  by (simp add: failing_at_def)

lemma sample_field_sel:
  "ref (sample_field r t ty) = PStr r" "title (sample_field r t ty) = PStr t"
  "ftype (sample_field r t ty) = PStr ty"
  by (simp_all add: sample_field_def)

lemma choice_not_text: "py_in t choice_types \<Longrightarrow> \<not> py_in t text_types"
  by (auto simp: py_in_def choice_types_def text_types_def split: pyval.splits)

lemma call_unit_run:
  "call_unit w ev tr = ((case fails w tr ev of Some e \<Rightarrow> Inl e | None \<Rightarrow> Inr ()), tr @ [ev])"
  by (simp add: call_unit_def call_def split: option.splits)

lemma text_field_run:
  "py_in (ftype f) text_types \<Longrightarrow>
   handle_field w f a tr =
     (Inr (),
      tr @ KeyType (answer_text a) #
        (case fails w tr (KeyType (answer_text a)) of
           None \<Rightarrow> []
         | Some e \<Rightarrow> [Print (MsgFieldException (ref f) e)]) @
        [KeyPress (ustr ''Enter'')])"
  by (simp add: handle_field_def interact_def io_try_def io_bind_def call_unit_run say_def
      safe_press_enter_run split: option.splits)

lemma handle_field_returns: "fst (handle_field w f a tr) = Inr ()"
  by (cases "interact w f a tr")
    (simp add: handle_field_def io_try_def io_bind_def say_def safe_press_enter_run
      split: sum.splits)

lemma fill_fields_step:
  assumes "fails w tr (WaitForTimeout 500) = None" and "provided_answer answers f = Inr a"
  shows "fill_fields w answers idx (f # fs) tr =
     fill_fields w answers (idx + 1) fs
       (snd (handle_field w f a
          (tr @ [WaitForTimeout 500, Print (MsgHandling (idx + 1) (ftype f) (ref f))])))"
proof -
  obtain r tr' where run: "handle_field w f a
      (tr @ [WaitForTimeout 500, Print (MsgHandling (idx + 1) (ftype f) (ref f))]) = (r, tr')"
    by (cases "handle_field w f a
      (tr @ [WaitForTimeout 500, Print (MsgHandling (idx + 1) (ftype f) (ref f))])")
  with handle_field_returns [of w f a
      "tr @ [WaitForTimeout 500, Print (MsgHandling (idx + 1) (ftype f) (ref f))]"]
  have "r = Inr ()" by simp
  with run assms show ?thesis
    by (simp add: io_bind_def io_lift_def call_unit_run say_def)
qed

lemma fill_fields_wait_raises:
  "fails w tr (WaitForTimeout 500) = Some e \<Longrightarrow>
   fill_fields w answers idx (f # fs) tr = (Inl e, tr @ [WaitForTimeout 500])"
  by (simp add: io_bind_def call_unit_run)

lemma fill_fields_lookup_raises:
  "fails w tr (WaitForTimeout 500) = None \<Longrightarrow> provided_answer answers f = Inl e \<Longrightarrow>
   fill_fields w answers idx (f # fs) tr = (Inl e, tr @ [WaitForTimeout 500])"
  by (simp add: io_bind_def io_lift_def call_unit_run)

lemma of_char_digit_char: "d < 10 \<Longrightarrow> (of_char (digit_char d) :: nat) = 48 + d"
  by (simp add: digit_char_def)

lemma digits_value_snoc:
  "digits_value (ds @ [c]) = 10 * digits_value ds + int (of_char c - 48)"
  by (simp add: digits_value_def)

lemma str_nat_digits:
  "str_nat n \<noteq> [] \<and> list_all is_ascii_digit (str_nat n) \<and> digits_value (str_nat n) = int n"
proof (induction n rule: str_nat.induct)
  case (1 n)
  show ?case
  proof (cases "n < 10")
    case True
    then show ?thesis
      by (subst (1 2 3) str_nat.simps)
        (simp add: is_ascii_digit_def of_char_digit_char digits_value_def)
  next
    case False
    then have m: "n mod 10 < 10" by simp
    from False "1.IH" have ih: "list_all is_ascii_digit (str_nat (n div 10))"
      "digits_value (str_nat (n div 10)) = int (n div 10)" by simp_all
    have a1: "n mod 10 \<le> 9" using m by arith
    have "int (10 * (n div 10) + n mod 10) = int n" by simp
    then have a2: "10 * int (n div 10) + int (n mod 10) = int n"
      by (simp only: of_nat_add of_nat_mult of_nat_numeral)
    from False a1 a2 show ?thesis
      by (subst (1 2 3) str_nat.simps)
        (simp add: ih digits_value_snoc is_ascii_digit_def of_char_digit_char [OF m])
  qed
qed

lemma py_str_int_digits:
  "\<exists>ds. ds \<noteq> [] \<and> list_all is_ascii_digit ds \<and> digits_value ds = \<bar>i\<bar> \<and>
     py_str (PInt i) = (if i < 0 then CHR ''-'' # ds else ds)"
proof (cases "i < 0")
  case True
  with str_nat_digits [of "nat (- i)"] show ?thesis
    by (intro exI [of _ "str_nat (nat (- i))"]) (simp add: py_str_def str_int_def)
next
  case False
  with str_nat_digits [of "nat i"] show ?thesis
    by (intro exI [of _ "str_nat (nat i)"]) (simp add: py_str_def str_int_def)
qed

subsection \<open>Free-text fields\<close>

text \<open>
  Claim C1, as stated, fails: for a number field whose answer map supplies the answer 0
  under the field's title, the driver types \<open>N/A\<close> and not the stringified answer \<open>0\<close>.
\<close>

theorem text_field_zero_counterexample:
  "map_of [(''Seats'', PInt 0)] ''Seats'' = Some (PInt 0) \<and>
   py_str (PInt 0) = ''0'' \<and>
   fill_fields calm (PDict [(''Seats'', PInt 0)]) 0 [sample_field ''q3'' ''Seats'' ''number''] [] =
     (Inr (),
      [WaitForTimeout 500, Print (MsgHandling 1 (PStr ''number'') (PStr ''q3'')),
       KeyType ''N/A'', KeyPress (ustr ''Enter'')])"
  by code_simp

text \<open>
  Claim C1, amended. For a field whose type is one of short_text, email, number, website,
  text and long_text, the driver types exactly one string, which is never empty: \<open>str\<close> of
  the resolved answer when that answer is truthy, and the literal \<open>N/A\<close> when it is falsy
  (no answer, or an answer such as 0 or the empty string). Whether or not the typing
  raises (in which case the handler logs the exception), exactly one Enter press follows.
  The loop hands the resolved answer of the field to this handling whenever the settle
  wait and the answer lookup of the iteration return. \<open>str\<close> is the identity on strings
  and gives an integer in decimal digits, with a minus sign when it is negative.
\<close>

theorem text_field_types_once:
  assumes "py_in (ftype f) text_types"
  shows
    "(truthy a \<longrightarrow>
        py_str a \<noteq> [] \<and>
        handle_field w f a tr =
          (Inr (),
           tr @ KeyType (py_str a) #
             (case fails w tr (KeyType (py_str a)) of
                None \<Rightarrow> []
              | Some e \<Rightarrow> [Print (MsgFieldException (ref f) e)]) @
             [KeyPress (ustr ''Enter'')])) \<and>
     (\<not> truthy a \<longrightarrow>
        handle_field w f a tr =
          (Inr (),
           tr @ KeyType ''N/A'' #
             (case fails w tr (KeyType ''N/A'') of
                None \<Rightarrow> []
              | Some e \<Rightarrow> [Print (MsgFieldException (ref f) e)]) @
             [KeyPress (ustr ''Enter'')])) \<and>
     (fails w tr (WaitForTimeout 500) = None \<and> provided_answer answers f = Inr a \<longrightarrow>
        fill_fields w answers idx (f # fs) tr =
          fill_fields w answers (idx + 1) fs
            (snd (handle_field w f a
               (tr @ [WaitForTimeout 500, Print (MsgHandling (idx + 1) (ftype f) (ref f))])))) \<and>
     (\<forall>s. py_str (PStr s) = s) \<and>
     (\<forall>i. \<exists>ds. ds \<noteq> [] \<and> list_all is_ascii_digit ds \<and> digits_value ds = \<bar>i\<bar> \<and>
        py_str (PInt i) = (if i < 0 then CHR ''-'' # ds else ds))"
proof (intro conjI impI allI)
  assume "truthy a"
  then show "py_str a \<noteq> []" by (rule py_str_nonempty)
  from \<open>truthy a\<close> show "handle_field w f a tr =
          (Inr (),
           tr @ KeyType (py_str a) #
             (case fails w tr (KeyType (py_str a)) of
                None \<Rightarrow> []
              | Some e \<Rightarrow> [Print (MsgFieldException (ref f) e)]) @
             [KeyPress (ustr ''Enter'')])"
    using text_field_run [OF assms, of w a tr] by (simp add: answer_text_def)
next
  assume "\<not> truthy a"
  then show "handle_field w f a tr =
          (Inr (),
           tr @ KeyType ''N/A'' #
             (case fails w tr (KeyType ''N/A'') of
                None \<Rightarrow> []
              | Some e \<Rightarrow> [Print (MsgFieldException (ref f) e)]) @
             [KeyPress (ustr ''Enter'')])"
    using text_field_run [OF assms, of w a tr] by (simp add: answer_text_def)
next
  assume "fails w tr (WaitForTimeout 500) = None \<and> provided_answer answers f = Inr a"
  then show "fill_fields w answers idx (f # fs) tr =
          fill_fields w answers (idx + 1) fs
            (snd (handle_field w f a
               (tr @ [WaitForTimeout 500, Print (MsgHandling (idx + 1) (ftype f) (ref f))])))"
    using fill_fields_step [of w tr answers f a idx fs] by blast
next
  fix s
  show "py_str (PStr s) = s" by (simp add: py_str_def)
next
  fix i
  show "\<exists>ds. ds \<noteq> [] \<and> list_all is_ascii_digit ds \<and> digits_value ds = \<bar>i\<bar> \<and>
        py_str (PInt i) = (if i < 0 then CHR ''-'' # ds else ds)"
    by (rule py_str_int_digits)
qed

theorem text_field_types_once_witness:
  "py_in (ftype (sample_field ''q3'' ''Seats'' ''number'')) text_types \<and>
   truthy (PInt 5) \<and> py_str (PInt 5) = ''5'' \<and>
   fails calm [] (WaitForTimeout 500) = None \<and>
   provided_answer (PDict [(''Seats'', PInt 5)]) (sample_field ''q3'' ''Seats'' ''number'') =
     Inr (PInt 5) \<and>
   fill_fields calm (PDict [(''Seats'', PInt 5)]) 0 [sample_field ''q3'' ''Seats'' ''number''] [] =
     (Inr (),
      [WaitForTimeout 500, Print (MsgHandling 1 (PStr ''number'') (PStr ''q3'')),
       KeyType ''5'', KeyPress (ustr ''Enter'')]) \<and>
   \<not> truthy PNone \<and>
   handle_field (failing_on (KeyType ''N/A'')) (sample_field ''q3'' ''Seats'' ''number'') PNone [] =
     (Inr (), [KeyType ''N/A'', Print (MsgFieldException (PStr ''q3'') (LibraryError ''Error'')),
               KeyPress (ustr ''Enter'')])"
proof -
  have ty: "py_in (ftype (sample_field ''q3'' ''Seats'' ''number'')) text_types"
    by (simp add: sample_field_sel py_in_def text_types_def)
  have five: "py_str (PInt 5) = ''5''" by code_simp
  have look: "provided_answer (PDict [(''Seats'', PInt 5)]) (sample_field ''q3'' ''Seats'' ''number'') =
     Inr (PInt 5)"
    by (simp add: provided_answer_def dict_get_def sample_field_sel)
  show ?thesis
    using ty five look
      text_field_types_once [OF ty, where a = "PInt 5" and w = calm and tr = "[]"
        and answers = "PDict [(''Seats'', PInt 5)]" and idx = 0 and fs = "[]"]
      text_field_types_once [OF ty, where a = "PInt 5" and w = calm
        and tr = "[WaitForTimeout 500, Print (MsgHandling 1 (PStr ''number'') (PStr ''q3''))]"]
      text_field_types_once [OF ty, where a = PNone and w = "failing_on (KeyType ''N/A'')"
        and tr = "[]"]
    by (simp add: fails_calm fails_failing_on sample_field_sel io_return_def)
qed

subsection \<open>Resolving a field's answer\<close>





subsection \<open>Falsy answers\<close>

text \<open>
  Claim C10, as stated, fails: with the empty string under the title and the number 0
  under the reference id, both lookups are falsy, the resolved answer is 0 and not
  \<open>None\<close>, and a multiple-choice field presses the key \<open>a\<close> before it advances.
\<close>

theorem falsy_choice_answer_counterexample:
  "\<not> truthy (PStr '''') \<and> \<not> truthy (PInt 0) \<and>
   provided_answer falsy_answers (sample_field ''q2'' ''Interest'' ''multiple_choice'') = Inr (PInt 0) \<and>
   handle_field calm (sample_field ''q2'' ''Interest'' ''multiple_choice'') (PInt 0) [] =
     (Inr (), [KeyPress (ustr ''a''), KeyPress (ustr ''Enter'')]) \<and>
   handle_field calm (sample_field ''q2'' ''Interest'' ''multiple_choice'') (PInt 0) [] \<noteq>
     (Inr (), [KeyPress (ustr ''Enter'')])"
  by code_simp

text \<open>
  Claim C10, amended. Presence is truthiness: a falsy value under the title is passed over
  and the answer is whatever the reference id holds (\<open>None\<close> when that key is absent). A
  free-text field with a falsy answer types \<open>N/A\<close>. A multiple-choice-like field presses
  no key and only advances when the resolved answer is \<open>None\<close>.
\<close>

theorem falsy_answer_handling:
  assumes "title f = PStr t" and "ref f = PStr r" and "map_of kvs t = Some v" and "\<not> truthy v"
  shows "provided_answer (PDict kvs) f = Inr (case map_of kvs r of Some u \<Rightarrow> u | None \<Rightarrow> PNone) \<and>
         (py_in (ftype f) text_types \<and> \<not> truthy a \<longrightarrow>
            handle_field w f a tr =
              (Inr (),
               tr @ KeyType ''N/A'' #
                 (case fails w tr (KeyType ''N/A'') of
                    None \<Rightarrow> []
                  | Some e \<Rightarrow> [Print (MsgFieldException (ref f) e)]) @
                 [KeyPress (ustr ''Enter'')])) \<and>
         (py_in (ftype f) choice_types \<longrightarrow>
            handle_field w f PNone tr = (Inr (), tr @ [KeyPress (ustr ''Enter'')]))"
proof (intro conjI impI)
  show "provided_answer (PDict kvs) f = Inr (case map_of kvs r of Some u \<Rightarrow> u | None \<Rightarrow> PNone)"
    using assms by (simp add: provided_answer_def dict_get_def split: option.splits)
next
  assume "py_in (ftype f) text_types \<and> \<not> truthy a"
  then show "handle_field w f a tr =
              (Inr (),
               tr @ KeyType ''N/A'' #
                 (case fails w tr (KeyType ''N/A'') of
                    None \<Rightarrow> []
                  | Some e \<Rightarrow> [Print (MsgFieldException (ref f) e)]) @
                 [KeyPress (ustr ''Enter'')])"
    using text_field_run [of f w a tr] by (simp add: answer_text_def)
next
  assume "py_in (ftype f) choice_types"
  then show "handle_field w f PNone tr = (Inr (), tr @ [KeyPress (ustr ''Enter'')])"
    by (simp add: handle_field_def interact_def choice_not_text io_try_def io_bind_def
        io_return_def safe_press_enter_run)
qed

theorem falsy_answer_handling_witness:
  "title (sample_field ''q3'' ''Seats'' ''number'') = PStr ''Seats'' \<and>
   ref (sample_field ''q3'' ''Seats'' ''number'') = PStr ''q3'' \<and>
   map_of [(''Seats'', PInt 0)] ''Seats'' = Some (PInt 0) \<and> \<not> truthy (PInt 0) \<and>
   provided_answer (PDict [(''Seats'', PInt 0)]) (sample_field ''q3'' ''Seats'' ''number'') = Inr PNone \<and>
   handle_field calm (sample_field ''q3'' ''Seats'' ''number'') (PInt 0) [] =
     (Inr (), [KeyType ''N/A'', KeyPress (ustr ''Enter'')]) \<and>
   title (sample_field ''q2'' ''Interest'' ''checkboxes'') = PStr ''Interest'' \<and>
   ref (sample_field ''q2'' ''Interest'' ''checkboxes'') = PStr ''q2'' \<and>
   map_of [(''Interest'', PList [])] ''Interest'' = Some (PList []) \<and> \<not> truthy (PList []) \<and>
   handle_field calm (sample_field ''q2'' ''Interest'' ''checkboxes'') PNone [] =
     (Inr (), [KeyPress (ustr ''Enter'')])"
  using
    falsy_answer_handling [of "sample_field ''q3'' ''Seats'' ''number''" "''Seats''" "''q3''"
      "[(''Seats'', PInt 0)]" "PInt 0" "PInt 0" calm "[]"]
    falsy_answer_handling [of "sample_field ''q2'' ''Interest'' ''checkboxes''" "''Interest''" "''q2''"
      "[(''Interest'', PList [])]" "PList []" PNone calm "[]"]
  by (simp add: sample_field_sel py_in_def text_types_def choice_types_def fails_calm)

subsection \<open>The keys of a choice answer\<close>

lemma dropWhile_hd: "xs \<noteq> [] \<Longrightarrow> \<not> P (hd xs) \<Longrightarrow> dropWhile P xs = xs"
  by (cases xs) simp_all

lemma digit_not_space: "is_ascii_digit c \<Longrightarrow> \<not> is_space_char c"
  by (auto simp: is_ascii_digit_def is_space_char_def Let_def)

lemma digit_not_sign: "is_ascii_digit c \<Longrightarrow> c \<noteq> CHR ''-'' \<and> c \<noteq> CHR ''+''"
  by (auto simp: is_ascii_digit_def)

lemma digit_lower: "is_ascii_digit c \<Longrightarrow> py_lower_char c = c"
  by (auto simp: is_ascii_digit_def py_lower_char_def Let_def)

lemma digits_lower: "list_all is_ascii_digit tok \<Longrightarrow> py_lower tok = tok"
  by (induction tok) (simp_all add: py_lower_def digit_lower)

lemma digits_strip:
  assumes "tok \<noteq> []" and "list_all is_ascii_digit tok"
  shows "py_strip tok = tok"
proof -
  have h: "is_ascii_digit (hd tok)" and l: "is_ascii_digit (last tok)"
    using assms by (auto simp: list_all_iff)
  have "dropWhile is_space_char tok = tok"
    using assms(1) h by (simp add: dropWhile_hd digit_not_space)
  moreover have "dropWhile is_space_char (rev tok) = rev tok"
    using assms(1) l by (simp add: dropWhile_hd digit_not_space hd_rev)
  ultimately show ?thesis by (simp add: py_strip_def)
qed

lemma digits_wellformed: "tok \<noteq> [] \<Longrightarrow> list_all is_ascii_digit tok \<Longrightarrow> wellformed_digits tok"
  by (induction tok rule: wellformed_digits.induct) simp_all

lemma digits_filter: "list_all is_ascii_digit tok \<Longrightarrow> filter is_ascii_digit tok = tok"
  by (induction tok) simp_all

lemma foldl_digits_nonneg:
  "0 \<le> a \<Longrightarrow> 0 \<le> foldl (\<lambda>a c. 10 * a + int (of_char c - 48)) a ds"
  by (induction ds arbitrary: a) simp_all

lemma digits_value_nonneg: "0 \<le> digits_value ds"
  by (simp add: digits_value_def foldl_digits_nonneg)

lemma py_int_str_digits:
  assumes "tok \<noteq> []" and "list_all is_ascii_digit tok" and "length tok \<le> int_max_str_digits"
  shows "py_int_str tok = Inr (digits_value tok)"
proof -
  have h: "is_ascii_digit (hd tok)"
    using assms by (auto simp: list_all_iff)
  show ?thesis
    using assms h digit_not_sign [OF h]
    by (simp add: py_int_str_def digits_strip digits_wellformed digits_filter Let_def)
qed

lemma choice_key_digits:
  assumes "tok \<noteq> []" and "list_all is_ascii_digit tok" and "length tok \<le> int_max_str_digits"
    and "digits_value tok + 97 < 0x110000"
  shows "choice_key tok = Inr [nat (digits_value tok + 97)]"
proof -
  have "py_isdigit tok"
    using assms(1,2) by (auto simp: py_isdigit_def is_digit_char_def list_all_iff)
  then show ?thesis
    using assms digits_value_nonneg [of tok]
    by (simp add: choice_key_def digits_lower py_int_str_digits py_chr_def Let_def)
qed

lemma choice_key_raw: "\<not> py_isdigit (py_lower tok) \<Longrightarrow> choice_key tok = Inr (ustr (py_lower tok))"
  by (simp add: choice_key_def Let_def)

lemma press_choices_ok:
  assumes quiet: "\<And>tr k. fails w tr (KeyPress k) = None"
  shows "sum_map choice_key toks = Inr keys \<Longrightarrow>
         press_choices w toks tr = (Inr (), tr @ map KeyPress keys)"
proof (induction toks arbitrary: tr keys)
  case Nil
  then show ?case by (simp add: io_return_def)
next
  case (Cons tok toks)
  from Cons.prems obtain k ks where k: "choice_key tok = Inr k"
    and ks: "sum_map choice_key toks = Inr ks" and keys: "keys = k # ks"
    by (auto simp: sum_bind_def split: sum.splits)
  show ?case
    using Cons.IH [OF ks, of "tr @ [KeyPress k]"] k keys quiet
    by (simp add: io_bind_def io_lift_def call_unit_run)
qed

lemma press_choices_prefix:
  "\<exists>n keys. n \<le> length toks \<and> sum_map choice_key (take n toks) = Inr keys \<and>
     snd (press_choices w toks tr) = tr @ map KeyPress keys \<and>
     (fst (press_choices w toks tr) = Inr () \<longrightarrow> n = length toks)"
proof (induction toks arbitrary: tr)
  case Nil
  then show ?case by (simp add: io_return_def)
next
  case (Cons tok toks)
  show ?case
  proof (cases "choice_key tok")
    case (Inl e)
    then have "snd (press_choices w (tok # toks) tr) = tr @ map KeyPress []"
      and "fst (press_choices w (tok # toks) tr) \<noteq> Inr ()"
      by (simp_all add: io_bind_def io_lift_def)
    then show ?thesis
      by (intro exI [of _ 0] exI [of _ "[]"]) simp
  next
    case (Inr k)
    show ?thesis
    proof (cases "fails w tr (KeyPress k)")
      case (Some e)
      with Inr have "snd (press_choices w (tok # toks) tr) = tr @ map KeyPress [k]"
        and "fst (press_choices w (tok # toks) tr) \<noteq> Inr ()"
        by (simp_all add: io_bind_def io_lift_def call_unit_run)
      with Inr show ?thesis
        by (intro exI [of _ 1] exI [of _ "[k]"]) (simp add: sum_bind_def)
    next
      case None
      from Cons.IH [of "tr @ [KeyPress k]"] obtain n keys where
        n: "n \<le> length toks" and ks: "sum_map choice_key (take n toks) = Inr keys"
        and tr: "snd (press_choices w toks (tr @ [KeyPress k])) = (tr @ [KeyPress k]) @ map KeyPress keys"
        and fin: "fst (press_choices w toks (tr @ [KeyPress k])) = Inr () \<longrightarrow> n = length toks"
        by blast
      have step: "press_choices w (tok # toks) tr = press_choices w toks (tr @ [KeyPress k])"
        using Inr None by (simp add: io_bind_def io_lift_def call_unit_run)
      show ?thesis
        unfolding step using n ks tr fin Inr
        by (intro exI [of _ "Suc n"] exI [of _ "k # keys"]) (simp add: sum_bind_def)
    qed
  qed
qed

lemma choice_field_run:
  assumes "py_in (ftype f) choice_types" and "a \<noteq> PNone"
  shows "handle_field w f a tr =
     (case press_choices w (split_on CHR '','' (remove_spaces (py_str a))) tr of
        (Inl e, tr') \<Rightarrow>
          (Inr (), tr' @ [Print (MsgFieldException (ref f) e), KeyPress (ustr ''Enter'')])
      | (Inr u, tr') \<Rightarrow> (Inr (), tr' @ [KeyPress (ustr ''Enter'')]))"
  using assms
  by (simp add: handle_field_def interact_def choice_not_text io_try_def io_bind_def say_def
      safe_press_enter_run split: prod.splits sum.splits)

lemma press_choices_through:
  "sum_map choice_key pre = Inr keys \<Longrightarrow>
   (\<forall>i < length keys. fails w (tr @ map KeyPress (take i keys)) (KeyPress (keys ! i)) = None) \<Longrightarrow>
   press_choices w (pre @ rest) tr = press_choices w rest (tr @ map KeyPress keys)"
proof (induction pre arbitrary: tr keys)
  case Nil
  then show ?case by simp
next
  case (Cons tok pre)
  from Cons.prems(1) obtain k ks where k: "choice_key tok = Inr k"
    and ks: "sum_map choice_key pre = Inr ks" and keys: "keys = k # ks"
    by (auto simp: sum_bind_def split: sum.splits)
  from Cons.prems(2) keys have first: "fails w tr (KeyPress k) = None"
    by auto
  have later: "\<forall>i < length ks.
      fails w ((tr @ [KeyPress k]) @ map KeyPress (take i ks)) (KeyPress (ks ! i)) = None"
  proof (intro allI impI)
    fix i
    assume "i < length ks"
    with Cons.prems(2) [rule_format, of "Suc i"] keys
    show "fails w ((tr @ [KeyPress k]) @ map KeyPress (take i ks)) (KeyPress (ks ! i)) = None"
      by simp
  qed
  have "press_choices w ((tok # pre) @ rest) tr = press_choices w (pre @ rest) (tr @ [KeyPress k])"
    using k first by (simp add: io_bind_def io_lift_def call_unit_run)
  also have "\<dots> = press_choices w rest ((tr @ [KeyPress k]) @ map KeyPress ks)"
    by (rule Cons.IH [OF ks later])
  finally show ?case using keys by simp
qed

lemma choice_key_out_of_range:
  assumes "tok \<noteq> []" and "list_all is_ascii_digit tok" and "length tok \<le> int_max_str_digits"
    and "0x110000 \<le> digits_value tok + 97"
  shows "choice_key tok =
     Inl (if 2 ^ 31 \<le> digits_value tok + 97 then OverflowError else ValueError)"
proof -
  have "py_isdigit tok"
    using assms(1,2) by (auto simp: py_isdigit_def is_digit_char_def list_all_iff)
  then show ?thesis
    using assms digits_value_nonneg [of tok]
    by (simp add: choice_key_def digits_lower py_int_str_digits py_chr_def Let_def)
qed

subsection \<open>Multiple-choice-like fields\<close>

text \<open>
  Claim C2, as stated, fails: the answer \<open>0,1114015\<close> has two tokens, the second is an
  all-digit token for which \<open>chr\<close> raises (1114015 + 97 is no code point), and the driver
  presses only the key \<open>a\<close> before the handler logs the exception and advances.
\<close>

theorem choice_tokens_counterexample:
  "split_on CHR '','' (remove_spaces (py_str (PStr ''0,1114015''))) = [''0'', ''1114015''] \<and>
   handle_field calm (sample_field ''q2'' ''Interest'' ''multiple_choice'') (PStr ''0,1114015'') [] =
     (Inr (), [KeyPress (ustr ''a''), Print (MsgFieldException (PStr ''q2'') ValueError),
               KeyPress (ustr ''Enter'')])"
  by code_simp

text \<open>
  Claim C2, amended. For a field of type multiple_choice, picture_choice or checkboxes and
  an answer other than \<open>None\<close>, the tokens are those of the stringified answer with its
  spaces removed, split on commas. A token is lowercased; a token that is not all digits
  is its own key, an all-digit token \<open>n\<close> with \<open>n + 97\<close> a code point becomes the key
  \<open>chr(n + 97)\<close>, and for an all-digit token beyond that \<open>chr\<close> raises. The keys are pressed
  in token order. When every token converts and no press raises, one key per token is
  pressed and one Enter press follows. At the first token whose conversion raises, the
  keys of the tokens before it have been pressed, the tokens after it are skipped, the
  exception is logged with the field's reference id, and one Enter press follows; at the
  first key press that raises, the same happens after that press. The loop hands the
  resolved answer of the field to this handling whenever the settle wait and the answer
  lookup of the iteration return.
\<close>

theorem choice_field_presses_tokens:
  assumes "py_in (ftype f) choice_types" and "a \<noteq> PNone"
  shows
    "(sum_map choice_key (split_on CHR '','' (remove_spaces (py_str a))) = Inr keys \<and>
        (\<forall>i < length keys.
           fails w (tr @ map KeyPress (take i keys)) (KeyPress (keys ! i)) = None) \<longrightarrow>
        handle_field w f a tr = (Inr (), tr @ map KeyPress keys @ [KeyPress (ustr ''Enter'')])) \<and>
     (split_on CHR '','' (remove_spaces (py_str a)) = pre @ tok # post \<and>
        sum_map choice_key pre = Inr pressed \<and>
        (\<forall>i < length pressed.
           fails w (tr @ map KeyPress (take i pressed)) (KeyPress (pressed ! i)) = None) \<and>
        choice_key tok = Inl e \<longrightarrow>
        handle_field w f a tr =
          (Inr (),
           tr @ map KeyPress pressed @
             [Print (MsgFieldException (ref f) e), KeyPress (ustr ''Enter'')])) \<and>
     (split_on CHR '','' (remove_spaces (py_str a)) = pre @ tok # post \<and>
        sum_map choice_key pre = Inr pressed \<and>
        (\<forall>i < length pressed.
           fails w (tr @ map KeyPress (take i pressed)) (KeyPress (pressed ! i)) = None) \<and>
        choice_key tok = Inr k \<and> fails w (tr @ map KeyPress pressed) (KeyPress k) = Some e \<longrightarrow>
        handle_field w f a tr =
          (Inr (),
           tr @ map KeyPress pressed @
             [KeyPress k, Print (MsgFieldException (ref f) e), KeyPress (ustr ''Enter'')])) \<and>
     (\<forall>t. \<not> py_isdigit (py_lower t) \<longrightarrow> choice_key t = Inr (ustr (py_lower t))) \<and>
     (\<forall>t. t \<noteq> [] \<and> list_all is_ascii_digit t \<and> length t \<le> int_max_str_digits \<and>
        digits_value t + 97 < 0x110000 \<longrightarrow>
        choice_key t = Inr [nat (digits_value t + 97)]) \<and>
     (\<forall>t. t \<noteq> [] \<and> list_all is_ascii_digit t \<and> length t \<le> int_max_str_digits \<and>
        0x110000 \<le> digits_value t + 97 \<longrightarrow>
        choice_key t = Inl (if 2 ^ 31 \<le> digits_value t + 97 then OverflowError else ValueError)) \<and>
     (fails w tr (WaitForTimeout 500) = None \<and> provided_answer answers f = Inr a \<longrightarrow>
        fill_fields w answers idx (f # fs) tr =
          fill_fields w answers (idx + 1) fs
            (snd (handle_field w f a
               (tr @ [WaitForTimeout 500, Print (MsgHandling (idx + 1) (ftype f) (ref f))]))))"
proof (intro conjI allI impI)
  assume h: "sum_map choice_key (split_on CHR '','' (remove_spaces (py_str a))) = Inr keys \<and>
        (\<forall>i < length keys.
           fails w (tr @ map KeyPress (take i keys)) (KeyPress (keys ! i)) = None)"
  then have "press_choices w (split_on CHR '','' (remove_spaces (py_str a)) @ []) tr =
      press_choices w [] (tr @ map KeyPress keys)"
    by (intro press_choices_through) simp_all
  then show "handle_field w f a tr = (Inr (), tr @ map KeyPress keys @ [KeyPress (ustr ''Enter'')])"
    by (simp add: choice_field_run [OF assms] io_return_def)
next
  assume h: "split_on CHR '','' (remove_spaces (py_str a)) = pre @ tok # post \<and>
        sum_map choice_key pre = Inr pressed \<and>
        (\<forall>i < length pressed.
           fails w (tr @ map KeyPress (take i pressed)) (KeyPress (pressed ! i)) = None) \<and>
        choice_key tok = Inl e"
  then have "press_choices w (pre @ tok # post) tr =
      press_choices w (tok # post) (tr @ map KeyPress pressed)"
    by (intro press_choices_through) simp_all
  with h show "handle_field w f a tr =
          (Inr (),
           tr @ map KeyPress pressed @
             [Print (MsgFieldException (ref f) e), KeyPress (ustr ''Enter'')])"
    by (simp add: choice_field_run [OF assms] io_bind_def io_lift_def)
next
  assume h: "split_on CHR '','' (remove_spaces (py_str a)) = pre @ tok # post \<and>
        sum_map choice_key pre = Inr pressed \<and>
        (\<forall>i < length pressed.
           fails w (tr @ map KeyPress (take i pressed)) (KeyPress (pressed ! i)) = None) \<and>
        choice_key tok = Inr k \<and> fails w (tr @ map KeyPress pressed) (KeyPress k) = Some e"
  then have "press_choices w (pre @ tok # post) tr =
      press_choices w (tok # post) (tr @ map KeyPress pressed)"
    by (intro press_choices_through) simp_all
  with h show "handle_field w f a tr =
          (Inr (),
           tr @ map KeyPress pressed @
             [KeyPress k, Print (MsgFieldException (ref f) e), KeyPress (ustr ''Enter'')])"
    by (simp add: choice_field_run [OF assms] io_bind_def io_lift_def call_unit_run)
next
  fix t
  assume "\<not> py_isdigit (py_lower t)"
  then show "choice_key t = Inr (ustr (py_lower t))"
    by (rule choice_key_raw)
next
  fix t
  assume "t \<noteq> [] \<and> list_all is_ascii_digit t \<and> length t \<le> int_max_str_digits \<and>
          digits_value t + 97 < 0x110000"
  then show "choice_key t = Inr [nat (digits_value t + 97)]"
    by (simp add: choice_key_digits)
next
  fix t
  assume "t \<noteq> [] \<and> list_all is_ascii_digit t \<and> length t \<le> int_max_str_digits \<and>
          0x110000 \<le> digits_value t + 97"
  then show "choice_key t =
      Inl (if 2 ^ 31 \<le> digits_value t + 97 then OverflowError else ValueError)"
    using choice_key_out_of_range [of t] by simp
next
  assume "fails w tr (WaitForTimeout 500) = None \<and> provided_answer answers f = Inr a"
  then show "fill_fields w answers idx (f # fs) tr =
          fill_fields w answers (idx + 1) fs
            (snd (handle_field w f a
               (tr @ [WaitForTimeout 500, Print (MsgHandling (idx + 1) (ftype f) (ref f))])))"
    using fill_fields_step [of w tr answers f a idx fs] by blast
qed

theorem choice_field_presses_tokens_witness:
  "py_in (ftype (sample_field ''q2'' ''Interest'' ''multiple_choice'')) choice_types \<and>
   sum_map choice_key (split_on CHR '','' (remove_spaces (py_str (PStr ''0,2'')))) =
     Inr [ustr ''a'', ustr ''c''] \<and>
   handle_field calm (sample_field ''q2'' ''Interest'' ''multiple_choice'') (PStr ''0,2'') [] =
     (Inr (), [KeyPress (ustr ''a''), KeyPress (ustr ''c''), KeyPress (ustr ''Enter'')]) \<and>
   split_on CHR '','' (remove_spaces (py_str (PStr ''0,1114015,1''))) =
     [''0''] @ ''1114015'' # [''1''] \<and>
   choice_key ''1114015'' = Inl ValueError \<and>
   handle_field calm (sample_field ''q2'' ''Interest'' ''multiple_choice'')
      (PStr ''0,1114015,1'') [] =
     (Inr (), [KeyPress (ustr ''a''), Print (MsgFieldException (PStr ''q2'') ValueError),
               KeyPress (ustr ''Enter'')]) \<and>
   split_on CHR '','' (remove_spaces (py_str (PStr ''zz,a''))) = [] @ ''zz'' # [''a''] \<and>
   choice_key ''zz'' = Inr (ustr ''zz'') \<and>
   fails (failing_on (KeyPress (ustr ''zz''))) [] (KeyPress (ustr ''zz'')) =
     Some (LibraryError ''Error'') \<and>
   handle_field (failing_on (KeyPress (ustr ''zz'')))
      (sample_field ''q2'' ''Interest'' ''multiple_choice'') (PStr ''zz,a'') [] =
     (Inr (), [KeyPress (ustr ''zz''),
               Print (MsgFieldException (PStr ''q2'') (LibraryError ''Error'')),
               KeyPress (ustr ''Enter'')])"
proof -
  have ty: "py_in (ftype (sample_field ''q2'' ''Interest'' ''multiple_choice'')) choice_types"
    by (simp add: sample_field_sel py_in_def choice_types_def)
  have ks: "sum_map choice_key (split_on CHR '','' (remove_spaces (py_str (PStr ''0,2'')))) =
     Inr [ustr ''a'', ustr ''c'']"
    by code_simp
  have sp1: "split_on CHR '','' (remove_spaces (py_str (PStr ''0,1114015,1''))) =
     [''0''] @ ''1114015'' # [''1'']"
    by code_simp
  have pre1: "sum_map choice_key [''0''] = Inr [ustr ''a'']" by code_simp
  have bad: "choice_key ''1114015'' = Inl ValueError" by code_simp
  have sp2: "split_on CHR '','' (remove_spaces (py_str (PStr ''zz,a''))) = [] @ ''zz'' # [''a'']"
    by code_simp
  have zz: "choice_key ''zz'' = Inr (ustr ''zz'')" by code_simp
  have ne: "PStr ''0,2'' \<noteq> PNone" "PStr ''0,1114015,1'' \<noteq> PNone" "PStr ''zz,a'' \<noteq> PNone"
    by simp_all
  have r1: "handle_field calm (sample_field ''q2'' ''Interest'' ''multiple_choice'') (PStr ''0,2'') [] =
     (Inr (), [KeyPress (ustr ''a''), KeyPress (ustr ''c''), KeyPress (ustr ''Enter'')])"
    using ks choice_field_presses_tokens [OF ty ne(1), where w = calm and tr = "[]"
        and keys = "[ustr ''a'', ustr ''c'']"]
    by (simp add: fails_calm)
  have r2: "handle_field calm (sample_field ''q2'' ''Interest'' ''multiple_choice'')
      (PStr ''0,1114015,1'') [] =
     (Inr (), [KeyPress (ustr ''a''), Print (MsgFieldException (PStr ''q2'') ValueError),
               KeyPress (ustr ''Enter'')])"
    using sp1 pre1 bad choice_field_presses_tokens [OF ty ne(2), where w = calm and tr = "[]"
        and pre = "[''0'']" and tok = "''1114015''" and post = "[''1'']"
        and pressed = "[ustr ''a'']" and e = ValueError]
    by (simp add: fails_calm sample_field_sel)
  have r3: "handle_field (failing_on (KeyPress (ustr ''zz'')))
      (sample_field ''q2'' ''Interest'' ''multiple_choice'') (PStr ''zz,a'') [] =
     (Inr (), [KeyPress (ustr ''zz''),
               Print (MsgFieldException (PStr ''q2'') (LibraryError ''Error'')),
               KeyPress (ustr ''Enter'')])"
    using sp2 zz choice_field_presses_tokens [OF ty ne(3),
        where w = "failing_on (KeyPress (ustr ''zz''))" and tr = "[]"
        and pre = "[]" and tok = "''zz''" and post = "[''a'']"
        and pressed = "[]" and k = "ustr ''zz''" and e = "LibraryError ''Error''"]
    by (simp add: fails_failing_on sample_field_sel)
  show ?thesis
    using ty ks sp1 bad sp2 zz r1 r2 r3 by (simp add: fails_failing_on)
qed

subsection \<open>Repeated presses\<close>

lemma press_times_ok:
  assumes quiet: "\<And>tr. fails w tr (KeyPress key) = None"
  shows "press_times w key n tr = (Inr (), tr @ replicate n (KeyPress key))"
proof (induction n arbitrary: tr)
  case 0
  show ?case by (simp add: io_return_def)
next
  case (Suc n)
  show ?case
    using Suc.IH [of "tr @ [KeyPress key]"] quiet
    by (simp add: io_bind_def call_unit_run replicate_app_Cons_same)
qed

lemma press_times_prefix:
  "\<exists>m. m \<le> n \<and> snd (press_times w key n tr) = tr @ replicate m (KeyPress key) \<and>
     (fst (press_times w key n tr) = Inr () \<longrightarrow> m = n)"
proof (induction n arbitrary: tr)
  case 0
  show ?case by (simp add: io_return_def)
next
  case (Suc n)
  show ?case
  proof (cases "fails w tr (KeyPress key)")
    case (Some e)
    then have "snd (press_times w key (Suc n) tr) = tr @ replicate 1 (KeyPress key)"
      and "fst (press_times w key (Suc n) tr) \<noteq> Inr ()"
      by (simp_all add: io_bind_def call_unit_run)
    then show ?thesis
      by (intro exI [of _ 1]) simp
  next
    case None
    from Suc.IH [of "tr @ [KeyPress key]"] obtain m where
      m: "m \<le> n"
      and tr: "snd (press_times w key n (tr @ [KeyPress key])) =
                 (tr @ [KeyPress key]) @ replicate m (KeyPress key)"
      and fin: "fst (press_times w key n (tr @ [KeyPress key])) = Inr () \<longrightarrow> m = n"
      by blast
    have step: "press_times w key (Suc n) tr = press_times w key n (tr @ [KeyPress key])"
      using None by (simp add: io_bind_def call_unit_run)
    show ?thesis
      unfolding step using m tr fin
      by (intro exI [of _ "Suc m"]) simp
  qed
qed

lemma dropdown_not_other:
  "\<not> py_in (PStr ''dropdown'') text_types" "\<not> py_in (PStr ''dropdown'') choice_types"
  by (simp_all add: py_in_def text_types_def choice_types_def)

lemma dropdown_field_run:
  assumes "ftype f = PStr ''dropdown''" and "truthy a" and "fails w tr (KeyPress (ustr ''Tab'')) = None"
  shows "handle_field w f a tr =
     (case press_times w (ustr ''ArrowDown'') (nat (dropdown_index a))
             (tr @ [KeyPress (ustr ''Tab''), KeyPress (ustr ''Enter'')]) of
        (Inl e, tr') \<Rightarrow>
          (Inr (), tr' @ [Print (MsgFieldException (ref f) e), KeyPress (ustr ''Enter'')])
      | (Inr u, tr') \<Rightarrow> (Inr (), tr' @ [KeyPress (ustr ''Enter'')]))"
  using assms
  by (simp add: handle_field_def interact_def dropdown_not_other io_try_def io_bind_def say_def
      call_unit_run safe_press_enter_run split: prod.splits sum.splits)

lemma press_times_through:
  "(\<forall>i < j. fails w (tr @ replicate i (KeyPress key)) (KeyPress key) = None) \<Longrightarrow>
   press_times w key (j + n) tr = press_times w key n (tr @ replicate j (KeyPress key))"
proof (induction j arbitrary: tr)
  case 0
  then show ?case by simp
next
  case (Suc j)
  from Suc.prems have first: "fails w tr (KeyPress key) = None"
    by auto
  have later: "\<forall>i < j. fails w ((tr @ [KeyPress key]) @ replicate i (KeyPress key)) (KeyPress key) = None"
  proof (intro allI impI)
    fix i
    assume "i < j"
    with Suc.prems [rule_format, of "Suc i"]
    show "fails w ((tr @ [KeyPress key]) @ replicate i (KeyPress key)) (KeyPress key) = None"
      by simp
  qed
  have "press_times w key (Suc j + n) tr = press_times w key (j + n) (tr @ [KeyPress key])"
    using first by (simp add: io_bind_def call_unit_run)
  also have "\<dots> = press_times w key n ((tr @ [KeyPress key]) @ replicate j (KeyPress key))"
    by (rule Suc.IH [OF later])
  finally show ?case by simp
qed

lemma dropdown_tab_raises:
  assumes "ftype f = PStr ''dropdown''" and "fails w tr (KeyPress (ustr ''Tab'')) = Some e"
  shows "handle_field w f a tr =
     (Inr (), tr @ [KeyPress (ustr ''Tab''), Print (MsgFieldException (ref f) e),
                    KeyPress (ustr ''Enter'')])"
  using assms
  by (simp add: handle_field_def interact_def dropdown_not_other io_try_def io_bind_def say_def
      call_unit_run safe_press_enter_run)

subsection \<open>Dropdown fields\<close>

text \<open>
  Claim C3, as stated, fails. The answer \<open>-2\<close> is present and parses as the integer -2,
  and no ArrowDown press is made. For the answer \<open>3\<close>, in a world where the call at
  position 3 of the trace raises (the second ArrowDown press), ArrowDown is pressed twice,
  the second time in vain, before the handler logs the exception and advances.
\<close>

theorem dropdown_presses_counterexample:
  "truthy (PStr ''-2'') \<and> py_int (PStr ''-2'') = Inr (- 2) \<and>
   handle_field calm (sample_field ''q4'' ''Country'' ''dropdown'') (PStr ''-2'') [] =
     (Inr (), [KeyPress (ustr ''Tab''), KeyPress (ustr ''Enter''), KeyPress (ustr ''Enter'')]) \<and>
   handle_field (failing_at 3) (sample_field ''q4'' ''Country'' ''dropdown'') (PStr ''3'') [] =
     (Inr (), [KeyPress (ustr ''Tab''), KeyPress (ustr ''Enter''),
               KeyPress (ustr ''ArrowDown''), KeyPress (ustr ''ArrowDown''),
               Print (MsgFieldException (PStr ''q4'') (LibraryError ''Error'')),
               KeyPress (ustr ''Enter'')])"
  by code_simp

text \<open>
  Claim C3, amended. For a dropdown field and a truthy answer, let \<open>k\<close> be \<open>int\<close> of the
  answer, or 1 when \<open>int\<close> raises; \<open>int\<close> of an integer is that integer, and \<open>int\<close> of a
  string of decimal digits is their value. When the Tab press and the ArrowDown presses do
  not raise, the driver presses Tab, advances, presses ArrowDown exactly \<open>max k 0\<close> times
  and advances. When the first \<open>j\<close> ArrowDown presses return and the next one raises, that
  press is the last ArrowDown press, the exception is logged with the field's reference
  id, and one Enter press follows; when the Tab press raises, the exception is logged and
  one Enter press follows. The loop hands the resolved answer of the field to this
  handling whenever the settle wait and the answer lookup of the iteration return.
\<close>

theorem dropdown_presses_index:
  assumes "ftype f = PStr ''dropdown''" and "truthy a"
  shows
    "dropdown_index a = (case py_int a of Inr i \<Rightarrow> i | Inl e \<Rightarrow> 1) \<and>
     (\<forall>i. py_int (PInt i) = Inr i) \<and>
     (\<forall>t. t \<noteq> [] \<and> list_all is_ascii_digit t \<and> length t \<le> int_max_str_digits \<longrightarrow>
        py_int (PStr t) = Inr (digits_value t)) \<and>
     (fails w tr (KeyPress (ustr ''Tab'')) = None \<and>
      (\<forall>i < nat (dropdown_index a).
         fails w (tr @ [KeyPress (ustr ''Tab''), KeyPress (ustr ''Enter'')] @
                    replicate i (KeyPress (ustr ''ArrowDown'')))
           (KeyPress (ustr ''ArrowDown'')) = None) \<longrightarrow>
        handle_field w f a tr =
          (Inr (),
           tr @ [KeyPress (ustr ''Tab''), KeyPress (ustr ''Enter'')] @
             replicate (nat (max (dropdown_index a) 0)) (KeyPress (ustr ''ArrowDown'')) @
             [KeyPress (ustr ''Enter'')])) \<and>
     (fails w tr (KeyPress (ustr ''Tab'')) = None \<and> j < nat (dropdown_index a) \<and>
      (\<forall>i < j.
         fails w (tr @ [KeyPress (ustr ''Tab''), KeyPress (ustr ''Enter'')] @
                    replicate i (KeyPress (ustr ''ArrowDown'')))
           (KeyPress (ustr ''ArrowDown'')) = None) \<and>
      fails w (tr @ [KeyPress (ustr ''Tab''), KeyPress (ustr ''Enter'')] @
                 replicate j (KeyPress (ustr ''ArrowDown'')))
        (KeyPress (ustr ''ArrowDown'')) = Some e \<longrightarrow>
        handle_field w f a tr =
          (Inr (),
           tr @ [KeyPress (ustr ''Tab''), KeyPress (ustr ''Enter'')] @
             replicate (Suc j) (KeyPress (ustr ''ArrowDown'')) @
             [Print (MsgFieldException (ref f) e), KeyPress (ustr ''Enter'')])) \<and>
     (fails w tr (KeyPress (ustr ''Tab'')) = Some e \<longrightarrow>
        handle_field w f a tr =
          (Inr (), tr @ [KeyPress (ustr ''Tab''), Print (MsgFieldException (ref f) e),
                         KeyPress (ustr ''Enter'')])) \<and>
     (fails w tr (WaitForTimeout 500) = None \<and> provided_answer answers f = Inr a \<longrightarrow>
        fill_fields w answers idx (f # fs) tr =
          fill_fields w answers (idx + 1) fs
            (snd (handle_field w f a
               (tr @ [WaitForTimeout 500, Print (MsgHandling (idx + 1) (ftype f) (ref f))]))))"
proof (intro conjI allI impI)
  show "dropdown_index a = (case py_int a of Inr i \<Rightarrow> i | Inl e \<Rightarrow> 1)"
    by (simp add: dropdown_index_def)
next
  fix i
  show "py_int (PInt i) = Inr i" by simp
next
  fix t
  assume "t \<noteq> [] \<and> list_all is_ascii_digit t \<and> length t \<le> int_max_str_digits"
  then show "py_int (PStr t) = Inr (digits_value t)"
    by (simp add: py_int_str_digits)
next
  let ?start = "tr @ [KeyPress (ustr ''Tab''), KeyPress (ustr ''Enter'')]"
  let ?n = "nat (dropdown_index a)"
  assume h: "fails w tr (KeyPress (ustr ''Tab'')) = None \<and>
      (\<forall>i < nat (dropdown_index a).
         fails w (tr @ [KeyPress (ustr ''Tab''), KeyPress (ustr ''Enter'')] @
                    replicate i (KeyPress (ustr ''ArrowDown'')))
           (KeyPress (ustr ''ArrowDown'')) = None)"
  then have "\<forall>i < ?n. fails w (?start @ replicate i (KeyPress (ustr ''ArrowDown'')))
      (KeyPress (ustr ''ArrowDown'')) = None"
    by simp
  from press_times_through [OF this, of 0]
  have "press_times w (ustr ''ArrowDown'') ?n ?start =
      (Inr (), ?start @ replicate ?n (KeyPress (ustr ''ArrowDown'')))"
    by (simp add: io_return_def)
  with h show "handle_field w f a tr =
          (Inr (),
           tr @ [KeyPress (ustr ''Tab''), KeyPress (ustr ''Enter'')] @
             replicate (nat (max (dropdown_index a) 0)) (KeyPress (ustr ''ArrowDown'')) @
             [KeyPress (ustr ''Enter'')])"
    by (simp add: dropdown_field_run [OF assms])
next
  let ?start = "tr @ [KeyPress (ustr ''Tab''), KeyPress (ustr ''Enter'')]"
  assume h: "fails w tr (KeyPress (ustr ''Tab'')) = None \<and> j < nat (dropdown_index a) \<and>
      (\<forall>i < j.
         fails w (tr @ [KeyPress (ustr ''Tab''), KeyPress (ustr ''Enter'')] @
                    replicate i (KeyPress (ustr ''ArrowDown'')))
           (KeyPress (ustr ''ArrowDown'')) = None) \<and>
      fails w (tr @ [KeyPress (ustr ''Tab''), KeyPress (ustr ''Enter'')] @
                 replicate j (KeyPress (ustr ''ArrowDown'')))
        (KeyPress (ustr ''ArrowDown'')) = Some e"
  then obtain m where m: "nat (dropdown_index a) = j + Suc m"
    by (metis add_Suc_right less_iff_Suc_add)
  from h have "\<forall>i < j. fails w (?start @ replicate i (KeyPress (ustr ''ArrowDown'')))
      (KeyPress (ustr ''ArrowDown'')) = None"
    by simp
  from press_times_through [OF this, of "Suc m"]
  have "press_times w (ustr ''ArrowDown'') (j + Suc m) ?start =
      press_times w (ustr ''ArrowDown'') (Suc m) (?start @ replicate j (KeyPress (ustr ''ArrowDown'')))"
    by simp
  also have "\<dots> = (Inl e, (?start @ replicate j (KeyPress (ustr ''ArrowDown''))) @
      [KeyPress (ustr ''ArrowDown'')])"
    using h by (simp add: io_bind_def call_unit_run)
  finally have "press_times w (ustr ''ArrowDown'') (nat (dropdown_index a)) ?start =
      (Inl e, ?start @ replicate (Suc j) (KeyPress (ustr ''ArrowDown'')))"
    by (simp add: m replicate_app_Cons_same)
  with h show "handle_field w f a tr =
          (Inr (),
           tr @ [KeyPress (ustr ''Tab''), KeyPress (ustr ''Enter'')] @
             replicate (Suc j) (KeyPress (ustr ''ArrowDown'')) @
             [Print (MsgFieldException (ref f) e), KeyPress (ustr ''Enter'')])"
    by (simp add: dropdown_field_run [OF assms])
next
  assume "fails w tr (KeyPress (ustr ''Tab'')) = Some e"
  then show "handle_field w f a tr =
          (Inr (), tr @ [KeyPress (ustr ''Tab''), Print (MsgFieldException (ref f) e),
                         KeyPress (ustr ''Enter'')])"
    by (rule dropdown_tab_raises [OF assms(1)])
next
  assume "fails w tr (WaitForTimeout 500) = None \<and> provided_answer answers f = Inr a"
  then show "fill_fields w answers idx (f # fs) tr =
          fill_fields w answers (idx + 1) fs
            (snd (handle_field w f a
               (tr @ [WaitForTimeout 500, Print (MsgHandling (idx + 1) (ftype f) (ref f))])))"
    using fill_fields_step [of w tr answers f a idx fs] by blast
qed

theorem dropdown_presses_index_witness:
  "ftype (sample_field ''q4'' ''Country'' ''dropdown'') = PStr ''dropdown'' \<and>
   truthy (PStr ''3'') \<and> dropdown_index (PStr ''3'') = 3 \<and>
   dropdown_index (PStr ''three'') = 1 \<and> dropdown_index (PStr [CHR 0x1C, CHR ''3'']) = 1 \<and>
   handle_field calm (sample_field ''q4'' ''Country'' ''dropdown'') (PStr ''3'') [] =
     (Inr (), [KeyPress (ustr ''Tab''), KeyPress (ustr ''Enter''),
               KeyPress (ustr ''ArrowDown''), KeyPress (ustr ''ArrowDown''),
               KeyPress (ustr ''ArrowDown''), KeyPress (ustr ''Enter'')]) \<and>
   handle_field (failing_at 3) (sample_field ''q4'' ''Country'' ''dropdown'') (PStr ''3'') [] =
     (Inr (), [KeyPress (ustr ''Tab''), KeyPress (ustr ''Enter''),
               KeyPress (ustr ''ArrowDown''), KeyPress (ustr ''ArrowDown''),
               Print (MsgFieldException (PStr ''q4'') (LibraryError ''Error'')),
               KeyPress (ustr ''Enter'')]) \<and>
   handle_field (failing_on (KeyPress (ustr ''Tab''))) (sample_field ''q4'' ''Country'' ''dropdown'')
      (PStr ''3'') [] =
     (Inr (), [KeyPress (ustr ''Tab''),
               Print (MsgFieldException (PStr ''q4'') (LibraryError ''Error'')),
               KeyPress (ustr ''Enter'')])"
proof -
  have ty: "ftype (sample_field ''q4'' ''Country'' ''dropdown'') = PStr ''dropdown''"
    by (simp add: sample_field_sel)
  have a: "truthy (PStr ''3'')" by simp
  have k: "dropdown_index (PStr ''3'') = 3" by code_simp
  have k1: "dropdown_index (PStr ''three'') = 1" by code_simp
  have k2: "dropdown_index (PStr [CHR 0x1C, CHR ''3'']) = 1" by code_simp
  have r1: "handle_field calm (sample_field ''q4'' ''Country'' ''dropdown'') (PStr ''3'') [] =
     (Inr (), [KeyPress (ustr ''Tab''), KeyPress (ustr ''Enter''),
               KeyPress (ustr ''ArrowDown''), KeyPress (ustr ''ArrowDown''),
               KeyPress (ustr ''ArrowDown''), KeyPress (ustr ''Enter'')])"
    using k dropdown_presses_index [OF ty a, where w = calm and tr = "[]"]
    by (simp add: fails_calm numeral_3_eq_3)
  have r2: "handle_field (failing_at 3) (sample_field ''q4'' ''Country'' ''dropdown'') (PStr ''3'') [] =
     (Inr (), [KeyPress (ustr ''Tab''), KeyPress (ustr ''Enter''),
               KeyPress (ustr ''ArrowDown''), KeyPress (ustr ''ArrowDown''),
               Print (MsgFieldException (PStr ''q4'') (LibraryError ''Error'')),
               KeyPress (ustr ''Enter'')])"
    using k dropdown_presses_index [OF ty a, where w = "failing_at 3" and tr = "[]"
        and j = 1 and e = "LibraryError ''Error''"]
    by (simp add: fails_failing_at sample_field_sel)
  have r3: "handle_field (failing_on (KeyPress (ustr ''Tab''))) (sample_field ''q4'' ''Country'' ''dropdown'')
      (PStr ''3'') [] =
     (Inr (), [KeyPress (ustr ''Tab''),
               Print (MsgFieldException (PStr ''q4'') (LibraryError ''Error'')),
               KeyPress (ustr ''Enter'')])"
    using dropdown_presses_index [OF ty a, where w = "failing_on (KeyPress (ustr ''Tab''))"
        and tr = "[]" and e = "LibraryError ''Error''"]
    by (simp add: fails_failing_on sample_field_sel)
  show ?thesis
    using ty a k k1 k2 r1 r2 r3 by simp
qed

subsection \<open>Downloads\<close>


lemma call_run:
  "call w ev result tr =
     ((case fails w tr ev of Some e \<Rightarrow> Inl e | None \<Rightarrow> Inr (result tr)), tr @ [ev])"
  by (simp add: call_def split: option.splits)




subsection \<open>File-upload fields\<close>




subsection \<open>The schema fetcher\<close>

lemma get_form_fields_run:
  "get_form_fields w form_id tr =
     (case fetch_fields w form_id (tr @ [Print MsgStep1]) of
        (Inl e, tr') \<Rightarrow> (Inr [], tr' @ [Print (MsgFieldsError e)])
      | (Inr flds, tr') \<Rightarrow> (Inr flds, tr'))"
  by (simp add: get_form_fields_def io_bind_def io_try_def io_return_def say_def
      split: prod.splits sum.splits)

lemma get_form_fields_example:
  "get_form_fields (calm\<lparr>form_json := (\<lambda>tr. sample_form)\<rparr>) TYPEFORM_FORM_ID [] =
     (Inr [\<lparr>ref = PStr ''q1'', title = PStr ''Email'', ftype = PStr ''short_text'', options = []\<rparr>,
           \<lparr>ref = PStr ''q2'', title = PStr ''Interest'', ftype = PStr ''multiple_choice'',
            options = [PStr ''networking'', PStr ''storage'']\<rparr>],
      [Print MsgStep1, RequestsGet ''https://api.typeform.com/forms/qedCsWYt'', RaiseForStatus,
       RespJson])"
  by code_simp

text \<open>
  Claim C4. \<open>get_form_fields\<close> returns a list in every world and for every form
  identifier: it never raises. Whenever the body of its \<open>try\<close> raises, it logs the error
  and returns the empty list; this is so when the request raises, when the status check
  raises, when the response is no JSON, and when the parsed response has not the shape the
  loop expects.
\<close>

theorem get_form_fields_never_raises:
  "(\<exists>flds. fst (get_form_fields w form_id tr) = Inr flds) \<and>
   (\<forall>e. fst (fetch_fields w form_id (tr @ [Print MsgStep1])) = Inl e \<longrightarrow>
      get_form_fields w form_id tr =
        (Inr [], snd (fetch_fields w form_id (tr @ [Print MsgStep1])) @ [Print (MsgFieldsError e)])) \<and>
   (\<forall>e. fails w (tr @ [Print MsgStep1])
           (RequestsGet (''https://api.typeform.com/forms/'' @ form_id)) = Some e \<longrightarrow>
      get_form_fields w form_id tr =
        (Inr [], tr @ [Print MsgStep1, RequestsGet (''https://api.typeform.com/forms/'' @ form_id),
                       Print (MsgFieldsError e)])) \<and>
   (\<forall>e. fails w (tr @ [Print MsgStep1])
           (RequestsGet (''https://api.typeform.com/forms/'' @ form_id)) = None \<and>
        fails w (tr @ [Print MsgStep1, RequestsGet (''https://api.typeform.com/forms/'' @ form_id)])
           RaiseForStatus = Some e \<longrightarrow>
      get_form_fields w form_id tr =
        (Inr [], tr @ [Print MsgStep1, RequestsGet (''https://api.typeform.com/forms/'' @ form_id),
                       RaiseForStatus, Print (MsgFieldsError e)])) \<and>
   (\<forall>e. fails w (tr @ [Print MsgStep1])
           (RequestsGet (''https://api.typeform.com/forms/'' @ form_id)) = None \<and>
        fails w (tr @ [Print MsgStep1, RequestsGet (''https://api.typeform.com/forms/'' @ form_id)])
           RaiseForStatus = None \<and>
        fails w (tr @ [Print MsgStep1, RequestsGet (''https://api.typeform.com/forms/'' @ form_id),
                       RaiseForStatus]) RespJson = Some e \<longrightarrow>
      get_form_fields w form_id tr =
        (Inr [], tr @ [Print MsgStep1, RequestsGet (''https://api.typeform.com/forms/'' @ form_id),
                       RaiseForStatus, RespJson, Print (MsgFieldsError e)])) \<and>
   (\<forall>e. (\<forall>tr' ev. fails w tr' ev = None) \<and>
        parse_fields (form_json w (tr @ [Print MsgStep1,
            RequestsGet (''https://api.typeform.com/forms/'' @ form_id), RaiseForStatus])) = Inl e \<longrightarrow>
      get_form_fields w form_id tr =
        (Inr [], tr @ [Print MsgStep1, RequestsGet (''https://api.typeform.com/forms/'' @ form_id),
                       RaiseForStatus, RespJson, Print (MsgFieldsError e)]))"
proof (intro conjI allI impI)
  show "\<exists>flds. fst (get_form_fields w form_id tr) = Inr flds"
    by (simp add: get_form_fields_run split: prod.splits sum.splits)
next
  fix e
  assume "fst (fetch_fields w form_id (tr @ [Print MsgStep1])) = Inl e"
  then show "get_form_fields w form_id tr =
        (Inr [], snd (fetch_fields w form_id (tr @ [Print MsgStep1])) @ [Print (MsgFieldsError e)])"
    by (cases "fetch_fields w form_id (tr @ [Print MsgStep1])") (simp add: get_form_fields_run)
next
  fix e
  assume "fails w (tr @ [Print MsgStep1])
           (RequestsGet (''https://api.typeform.com/forms/'' @ form_id)) = Some e"
  then show "get_form_fields w form_id tr =
        (Inr [], tr @ [Print MsgStep1, RequestsGet (''https://api.typeform.com/forms/'' @ form_id),
                       Print (MsgFieldsError e)])"
    by (simp add: get_form_fields_run fetch_fields_def io_bind_def call_unit_run)
next
  fix e
  assume "fails w (tr @ [Print MsgStep1])
           (RequestsGet (''https://api.typeform.com/forms/'' @ form_id)) = None \<and>
        fails w (tr @ [Print MsgStep1, RequestsGet (''https://api.typeform.com/forms/'' @ form_id)])
           RaiseForStatus = Some e"
  then show "get_form_fields w form_id tr =
        (Inr [], tr @ [Print MsgStep1, RequestsGet (''https://api.typeform.com/forms/'' @ form_id),
                       RaiseForStatus, Print (MsgFieldsError e)])"
    by (simp add: get_form_fields_run fetch_fields_def io_bind_def call_unit_run)
next
  fix e
  assume "fails w (tr @ [Print MsgStep1])
           (RequestsGet (''https://api.typeform.com/forms/'' @ form_id)) = None \<and>
        fails w (tr @ [Print MsgStep1, RequestsGet (''https://api.typeform.com/forms/'' @ form_id)])
           RaiseForStatus = None \<and>
        fails w (tr @ [Print MsgStep1, RequestsGet (''https://api.typeform.com/forms/'' @ form_id),
                       RaiseForStatus]) RespJson = Some e"
  then show "get_form_fields w form_id tr =
        (Inr [], tr @ [Print MsgStep1, RequestsGet (''https://api.typeform.com/forms/'' @ form_id),
                       RaiseForStatus, RespJson, Print (MsgFieldsError e)])"
    by (simp add: get_form_fields_run fetch_fields_def io_bind_def call_unit_run call_run)
next
  fix e
  assume "(\<forall>tr' ev. fails w tr' ev = None) \<and>
        parse_fields (form_json w (tr @ [Print MsgStep1,
            RequestsGet (''https://api.typeform.com/forms/'' @ form_id), RaiseForStatus])) = Inl e"
  then show "get_form_fields w form_id tr =
        (Inr [], tr @ [Print MsgStep1, RequestsGet (''https://api.typeform.com/forms/'' @ form_id),
                       RaiseForStatus, RespJson, Print (MsgFieldsError e)])"
    by (simp add: get_form_fields_run fetch_fields_def io_bind_def io_lift_def call_unit_run
        call_run)
qed

theorem get_form_fields_never_raises_witness:
  "fails (failing_on RaiseForStatus) [Print MsgStep1]
      (RequestsGet (''https://api.typeform.com/forms/'' @ TYPEFORM_FORM_ID)) = None \<and>
   fails (failing_on RaiseForStatus)
      [Print MsgStep1, RequestsGet (''https://api.typeform.com/forms/'' @ TYPEFORM_FORM_ID)]
      RaiseForStatus = Some (LibraryError ''Error'') \<and>
   get_form_fields (failing_on RaiseForStatus) TYPEFORM_FORM_ID [] =
     (Inr [], [Print MsgStep1, RequestsGet ''https://api.typeform.com/forms/qedCsWYt'',
               RaiseForStatus, Print (MsgFieldsError (LibraryError ''Error''))]) \<and>
   (\<forall>tr' ev. fails (calm\<lparr>form_json := (\<lambda>tr. PList [PStr ''fields''])\<rparr>) tr' ev = None) \<and>
   parse_fields (PList [PStr ''fields'']) = Inl AttributeError \<and>
   get_form_fields (calm\<lparr>form_json := (\<lambda>tr. PList [PStr ''fields''])\<rparr>) TYPEFORM_FORM_ID [] =
     (Inr [], [Print MsgStep1, RequestsGet ''https://api.typeform.com/forms/qedCsWYt'',
               RaiseForStatus, RespJson, Print (MsgFieldsError AttributeError)])"
proof -
  have p: "parse_fields (PList [PStr ''fields'']) = Inl AttributeError"
    by (simp add: parse_fields_def get_or_def sum_bind_def)
  show ?thesis
    using p
      get_form_fields_never_raises [of "failing_on RaiseForStatus" TYPEFORM_FORM_ID "[]"]
      get_form_fields_never_raises
        [of "calm\<lparr>form_json := (\<lambda>tr. PList [PStr ''fields''])\<rparr>" TYPEFORM_FORM_ID "[]"]
    by (simp add: fails_failing_on fails_calm TYPEFORM_FORM_ID_def)
qed

subsection \<open>What a computation adds to the trace\<close>

lemma adds_onlyI: "(\<And>tr. \<exists>es. snd (m tr) = tr @ es \<and> list_all P es) \<Longrightarrow> adds_only P m"
  by (simp add: adds_only_def)

lemma adds_onlyD: "adds_only P m \<Longrightarrow> \<exists>es. snd (m tr) = tr @ es \<and> list_all P es"
  by (simp add: adds_only_def)

lemma adds_only_return: "adds_only P (io_return x)"
  by (simp add: adds_only_def io_return_def)

lemma adds_only_lift: "adds_only P (io_lift r)"
  by (simp add: adds_only_def io_lift_def)

lemma adds_only_call: "P ev \<Longrightarrow> adds_only P (call w ev result)"
  by (simp add: adds_only_def call_run)

lemma adds_only_call_unit: "P ev \<Longrightarrow> adds_only P (call_unit w ev)"
  by (simp add: call_unit_def adds_only_call)

lemma adds_only_say: "P (Print m) \<Longrightarrow> adds_only P (say m)"
  by (simp add: adds_only_def say_def)

lemma adds_only_bind:
  assumes m: "adds_only P m" and k: "\<And>x. adds_only P (k x)"
  shows "adds_only P (io_bind m k)"
proof (rule adds_onlyI)
  fix tr
  obtain r tr' where run: "m tr = (r, tr')" by (cases "m tr")
  from adds_onlyD [OF m, of tr] run obtain es where es: "tr' = tr @ es" "list_all P es"
    by auto
  show "\<exists>es. snd (io_bind m k tr) = tr @ es \<and> list_all P es"
  proof (cases r)
    case (Inl e)
    with run es show ?thesis by (simp add: io_bind_def)
  next
    case (Inr x)
    from adds_onlyD [OF k, of x tr'] obtain es' where
      "snd (k x tr') = tr' @ es'" "list_all P es'" by blast
    with Inr run es show ?thesis
      by (intro exI [of _ "es @ es'"]) (simp add: io_bind_def)
  qed
qed

lemma adds_only_try:
  assumes m: "adds_only P m" and h: "\<And>e. adds_only P (h e)"
  shows "adds_only P (io_try m h)"
proof (rule adds_onlyI)
  fix tr
  obtain r tr' where run: "m tr = (r, tr')" by (cases "m tr")
  from adds_onlyD [OF m, of tr] run obtain es where es: "tr' = tr @ es" "list_all P es"
    by auto
  show "\<exists>es. snd (io_try m h tr) = tr @ es \<and> list_all P es"
  proof (cases r)
    case (Inr x)
    with run es show ?thesis by (simp add: io_try_def)
  next
    case (Inl e)
    from adds_onlyD [OF h, of e tr'] obtain es' where
      "snd (h e tr') = tr' @ es'" "list_all P es'" by blast
    with Inl run es show ?thesis
      by (intro exI [of _ "es @ es'"]) (simp add: io_try_def)
  qed
qed

lemma adds_only_safe_press_enter:
  "P (KeyPress (ustr ''Enter'')) \<Longrightarrow> adds_only P (safe_press_enter w)"
  by (simp add: adds_only_def safe_press_enter_run)

lemma adds_only_press_choices:
  "(\<And>k. P (KeyPress k)) \<Longrightarrow> adds_only P (press_choices w toks)"
  by (induction toks)
    (simp_all add: adds_only_return adds_only_bind adds_only_lift adds_only_call_unit)

lemma adds_only_press_times:
  "P (KeyPress key) \<Longrightarrow> adds_only P (press_times w key n)"
  by (induction n) (simp_all add: adds_only_return adds_only_bind adds_only_call_unit)

lemma adds_only_download:
  assumes "P (RequestsGet url)" and "P RaiseForStatus" and "P TmpCreate"
    and "\<And>n c. P (TmpWrite n c)" and "\<And>n. P (TmpClose n)"
  shows "adds_only P (download w url)"
  unfolding download_def
  by (intro adds_only_bind adds_only_call adds_only_call_unit adds_only_return assms)

lemma adds_only_upload_path:
  assumes "\<And>url. P (RequestsGet url)" and "P RaiseForStatus" and "P TmpCreate"
    and "\<And>n c. P (TmpWrite n c)" and "\<And>n. P (TmpClose n)"
  shows "adds_only P (upload_path w a)"
  unfolding upload_path_def
  by (intro adds_only_bind adds_only_lift)
    (simp add: adds_only_download adds_only_return assms)

text \<open>The events one field's interaction can add.\<close>

lemma adds_only_interact:
  assumes keys: "\<And>k. P (KeyPress k)" and typed: "\<And>s. P (KeyType s)"
    and get: "\<And>url. P (RequestsGet url)" and status: "P RaiseForStatus" and tmp: "P TmpCreate"
    and wr: "\<And>n c. P (TmpWrite n c)" and cl: "\<And>n. P (TmpClose n)"
    and loc: "\<And>s. P (Locator s)" and inp: "\<And>p. P (SetInputFiles p)"
    and up: "\<And>p. P (Print (MsgUploaded p))" and unk: "\<And>t. P (Print (MsgUnknownType t))"
  shows "adds_only P (interact w f a)"
  unfolding interact_def
  by (simp add: adds_only_bind adds_only_call_unit adds_only_safe_press_enter
      adds_only_press_choices adds_only_press_times adds_only_upload_path adds_only_say
      adds_only_return assms)

lemma adds_only_handle_field:
  assumes keys: "\<And>k. P (KeyPress k)" and typed: "\<And>s. P (KeyType s)"
    and get: "\<And>url. P (RequestsGet url)" and status: "P RaiseForStatus" and tmp: "P TmpCreate"
    and wr: "\<And>n c. P (TmpWrite n c)" and cl: "\<And>n. P (TmpClose n)"
    and loc: "\<And>s. P (Locator s)" and inp: "\<And>p. P (SetInputFiles p)"
    and up: "\<And>p. P (Print (MsgUploaded p))" and unk: "\<And>t. P (Print (MsgUnknownType t))"
    and exc: "\<And>r e. P (Print (MsgFieldException r e))"
  shows "adds_only P (handle_field w f a)"
  unfolding handle_field_def
  by (intro adds_only_try adds_only_interact adds_only_bind adds_only_say
      adds_only_safe_press_enter assms)

lemma handle_field_no_handling:
  "\<exists>es. handle_field w f a tr = (Inr (), tr @ es) \<and> filter is_handling es = []"
proof -
  have "adds_only (\<lambda>ev. \<not> is_handling ev) (handle_field w f a)"
    by (rule adds_only_handle_field) simp_all
  from adds_onlyD [OF this, of tr] obtain es where
    "snd (handle_field w f a tr) = tr @ es" "list_all (\<lambda>ev. \<not> is_handling ev) es" by blast
  then have "handle_field w f a tr = (Inr (), tr @ es)" and "filter is_handling es = []"
    using handle_field_returns [of w f a tr]
    by (simp_all add: prod_eq_iff list_all_iff filter_empty_conv)
  then show ?thesis by blast
qed

lemma fill_fields_visits_all:
  assumes waits: "\<And>tr'. fails w tr' (WaitForTimeout 500) = None"
  shows "(\<forall>f \<in> set fs. \<exists>a. provided_answer answers f = Inr a) \<Longrightarrow>
     fst (fill_fields w answers idx fs tr) = Inr () \<and>
     filter is_handling (snd (fill_fields w answers idx fs tr)) =
       filter is_handling tr @
       map (\<lambda>(i, f). Print (MsgHandling (i + 1) (ftype f) (ref f))) (enumerate idx fs)"
proof (induction fs arbitrary: idx tr)
  case Nil
  show ?case by (simp add: io_return_def)
next
  case (Cons f fs)
  from Cons.prems obtain a where a: "provided_answer answers f = Inr a" by auto
  let ?tr2 = "tr @ [WaitForTimeout 500, Print (MsgHandling (idx + 1) (ftype f) (ref f))]"
  obtain es where es: "handle_field w f a ?tr2 = (Inr (), ?tr2 @ es)"
    and quiet: "filter is_handling es = []"
    using handle_field_no_handling [of w f a ?tr2] by blast
  have step: "fill_fields w answers idx (f # fs) tr = fill_fields w answers (idx + 1) fs (?tr2 @ es)"
    using a es waits by (simp add: io_bind_def io_lift_def call_unit_run say_def)
  have rest: "\<forall>f \<in> set fs. \<exists>a. provided_answer answers f = Inr a"
    using Cons.prems by simp
  show ?case
    unfolding step using Cons.IH [OF rest, of "idx + 1" "?tr2 @ es"] quiet
    by (simp add: enumerate_simps)
qed

subsection \<open>A failure in one field\<close>

lemma fails_dead_from:
  "fails (dead_from n) tr ev = (if n \<le> length tr then Some (LibraryError ''Error'') else None)"
  by (simp add: dead_from_def)

text \<open>
  Claim C7, as stated, fails. In a world where the page dies while the first field is
  handled, the typing of the first field raises and is caught and logged, but the settle
  wait at the head of the second iteration, which is outside the \<open>try\<close>, raises as well:
  the exception leaves the loop and the second field is never visited.
\<close>

theorem later_field_not_visited_counterexample:
  "fill_fields (dead_from 2) sample_answers 0 sample_fields [] =
     (Inl (LibraryError ''Error''),
      [WaitForTimeout 500, Print (MsgHandling 1 (PStr ''short_text'') (PStr ''q1'')),
       KeyType ''a@b.com'', Print (MsgFieldException (PStr ''q1'') (LibraryError ''Error'')),
       KeyPress (ustr ''Enter''), WaitForTimeout 500]) \<and>
   Print (MsgHandling 2 (PStr ''multiple_choice'') (PStr ''q2''))
     \<notin> set (snd (fill_fields (dead_from 2) sample_answers 0 sample_fields []))"
  by code_simp

text \<open>
  Claim C7, amended. In every world the handling of a field returns normally: when the
  interaction of the field raises, the handler logs the exception with the field's
  reference id and makes one more Enter press, and nothing is raised further; when the
  interaction returns, nothing is added. The loop runs this handling on the resolved
  answer of each field and goes on with the next field. The settle wait and the answer
  lookup at the head of an iteration are outside the \<open>try\<close>: as long as they return, the
  loop returns normally and has visited every field, once each and in order, whatever
  happened inside the interactions; when one of them raises, the exception leaves the
  loop there and the remaining fields are not visited.
\<close>

theorem field_failure_is_contained:
  "fst (handle_field w f a tr) = Inr () \<and>
   (\<forall>e. fst (interact w f a tr) = Inl e \<longrightarrow>
      handle_field w f a tr =
        (Inr (),
         snd (interact w f a tr) @
           [Print (MsgFieldException (ref f) e), KeyPress (ustr ''Enter'')])) \<and>
   (fst (interact w f a tr) = Inr () \<longrightarrow> handle_field w f a tr = interact w f a tr) \<and>
   (fails w tr (WaitForTimeout 500) = None \<and> provided_answer answers f = Inr a \<longrightarrow>
      fill_fields w answers idx (f # fs) tr =
        fill_fields w answers (idx + 1) fs
          (snd (handle_field w f a
             (tr @ [WaitForTimeout 500, Print (MsgHandling (idx + 1) (ftype f) (ref f))])))) \<and>
   ((\<forall>tr'. fails w tr' (WaitForTimeout 500) = None) \<and>
    (\<forall>g \<in> set gs. \<exists>b. provided_answer answers g = Inr b) \<longrightarrow>
      fst (fill_fields w answers idx gs tr) = Inr () \<and>
      filter is_handling (snd (fill_fields w answers idx gs tr)) =
        filter is_handling tr @
        map (\<lambda>(i, g). Print (MsgHandling (i + 1) (ftype g) (ref g))) (enumerate idx gs)) \<and>
   (\<forall>e. fails w tr (WaitForTimeout 500) = Some e \<longrightarrow>
      fill_fields w answers idx (f # fs) tr = (Inl e, tr @ [WaitForTimeout 500])) \<and>
   (\<forall>e. fails w tr (WaitForTimeout 500) = None \<and> provided_answer answers f = Inl e \<longrightarrow>
      fill_fields w answers idx (f # fs) tr = (Inl e, tr @ [WaitForTimeout 500]))"
proof (intro conjI allI impI)
  show "fst (handle_field w f a tr) = Inr ()"
    by (rule handle_field_returns)
next
  fix e
  assume "fst (interact w f a tr) = Inl e"
  then show "handle_field w f a tr =
        (Inr (),
         snd (interact w f a tr) @
           [Print (MsgFieldException (ref f) e), KeyPress (ustr ''Enter'')])"
    by (cases "interact w f a tr")
      (simp add: handle_field_def io_try_def io_bind_def say_def safe_press_enter_run)
next
  assume "fst (interact w f a tr) = Inr ()"
  then show "handle_field w f a tr = interact w f a tr"
    by (cases "interact w f a tr") (simp add: handle_field_def io_try_def)
next
  assume "fails w tr (WaitForTimeout 500) = None \<and> provided_answer answers f = Inr a"
  then show "fill_fields w answers idx (f # fs) tr =
        fill_fields w answers (idx + 1) fs
          (snd (handle_field w f a
             (tr @ [WaitForTimeout 500, Print (MsgHandling (idx + 1) (ftype f) (ref f))])))"
    using fill_fields_step [of w tr answers f a idx fs] by blast
next
  assume h: "(\<forall>tr'. fails w tr' (WaitForTimeout 500) = None) \<and>
    (\<forall>g \<in> set gs. \<exists>b. provided_answer answers g = Inr b)"
  then show "fst (fill_fields w answers idx gs tr) = Inr ()"
    using fill_fields_visits_all [of w gs answers idx tr] by simp
  from h show "filter is_handling (snd (fill_fields w answers idx gs tr)) =
        filter is_handling tr @
        map (\<lambda>(i, g). Print (MsgHandling (i + 1) (ftype g) (ref g))) (enumerate idx gs)"
    using fill_fields_visits_all [of w gs answers idx tr] by simp
next
  fix e
  assume "fails w tr (WaitForTimeout 500) = Some e"
  then show "fill_fields w answers idx (f # fs) tr = (Inl e, tr @ [WaitForTimeout 500])"
    by (rule fill_fields_wait_raises)
next
  fix e
  assume "fails w tr (WaitForTimeout 500) = None \<and> provided_answer answers f = Inl e"
  then show "fill_fields w answers idx (f # fs) tr = (Inl e, tr @ [WaitForTimeout 500])"
    using fill_fields_lookup_raises [of w tr answers f e idx fs] by blast
qed

theorem field_failure_is_contained_witness:
  "fst (interact (failing_on (KeyType ''a@b.com'')) (sample_field ''q1'' ''Email'' ''short_text'')
         (PStr ''a@b.com'') []) = Inl (LibraryError ''Error'') \<and>
   handle_field (failing_on (KeyType ''a@b.com'')) (sample_field ''q1'' ''Email'' ''short_text'')
      (PStr ''a@b.com'') [] =
     (Inr (), [KeyType ''a@b.com'',
               Print (MsgFieldException (PStr ''q1'') (LibraryError ''Error'')),
               KeyPress (ustr ''Enter'')]) \<and>
   (\<forall>tr'. fails (failing_on (KeyType ''a@b.com'')) tr' (WaitForTimeout 500) = None) \<and>
   provided_answer sample_answers (sample_field ''q1'' ''Email'' ''short_text'') =
     Inr (PStr ''a@b.com'') \<and>
   provided_answer sample_answers (sample_field ''q2'' ''Interest'' ''multiple_choice'') =
     Inr (PStr ''0'') \<and>
   fst (fill_fields (failing_on (KeyType ''a@b.com'')) sample_answers 0 sample_fields []) = Inr () \<and>
   filter is_handling
     (snd (fill_fields (failing_on (KeyType ''a@b.com'')) sample_answers 0 sample_fields [])) =
     [Print (MsgHandling 1 (PStr ''short_text'') (PStr ''q1'')),
      Print (MsgHandling 2 (PStr ''multiple_choice'') (PStr ''q2''))] \<and>
   fails (dead_from 0) [] (WaitForTimeout 500) = Some (LibraryError ''Error'') \<and>
   fill_fields (dead_from 0) sample_answers 0
     (sample_field ''q1'' ''Email'' ''short_text'' #
      [sample_field ''q2'' ''Interest'' ''multiple_choice'']) [] =
     (Inl (LibraryError ''Error''), [WaitForTimeout 500])"
proof -
  have run: "interact (failing_on (KeyType ''a@b.com'')) (sample_field ''q1'' ''Email'' ''short_text'')
         (PStr ''a@b.com'') [] = (Inl (LibraryError ''Error''), [KeyType ''a@b.com''])"
    by (simp add: interact_def sample_field_sel py_in_def text_types_def answer_text_def
        py_str_def io_bind_def call_unit_run fails_failing_on)
  have lookups:
    "provided_answer sample_answers (sample_field ''q1'' ''Email'' ''short_text'') =
       Inr (PStr ''a@b.com'')"
    "provided_answer sample_answers (sample_field ''q2'' ''Interest'' ''multiple_choice'') =
       Inr (PStr ''0'')"
    by (simp_all add: sample_answers_def sample_field_sel provided_answer_def dict_get_def)
  have part1:
    "handle_field (failing_on (KeyType ''a@b.com'')) (sample_field ''q1'' ''Email'' ''short_text'')
        (PStr ''a@b.com'') [] =
       (Inr (), [KeyType ''a@b.com'',
                 Print (MsgFieldException (PStr ''q1'') (LibraryError ''Error'')),
                 KeyPress (ustr ''Enter'')]) \<and>
     fst (fill_fields (failing_on (KeyType ''a@b.com'')) sample_answers 0 sample_fields []) = Inr () \<and>
     filter is_handling
       (snd (fill_fields (failing_on (KeyType ''a@b.com'')) sample_answers 0 sample_fields [])) =
       [Print (MsgHandling 1 (PStr ''short_text'') (PStr ''q1'')),
        Print (MsgHandling 2 (PStr ''multiple_choice'') (PStr ''q2''))]"
    using run lookups
      field_failure_is_contained
        [where w = "failing_on (KeyType ''a@b.com'')"
           and f = "sample_field ''q1'' ''Email'' ''short_text''"
           and a = "PStr ''a@b.com''" and tr = "[]" and gs = sample_fields
           and answers = sample_answers and idx = 0 and fs = "[]"]
    by (simp add: fails_failing_on sample_field_sel sample_fields_def enumerate_simps
        del: fill_fields.simps(2))
  have part2: "fill_fields (dead_from 0) sample_answers 0
     (sample_field ''q1'' ''Email'' ''short_text'' #
      [sample_field ''q2'' ''Interest'' ''multiple_choice'']) [] =
     (Inl (LibraryError ''Error''), [WaitForTimeout 500])"
    using field_failure_is_contained
        [where w = "dead_from 0" and f = "sample_field ''q1'' ''Email'' ''short_text''"
           and tr = "[]" and answers = sample_answers and idx = 0
           and fs = "[sample_field ''q2'' ''Interest'' ''multiple_choice'']"]
    by (simp add: fails_dead_from del: fill_fields.simps(2))
  show ?thesis
    using run lookups part1 part2 by (simp add: fails_failing_on fails_dead_from)
qed

subsection \<open>Closing the browser\<close>

lemma click_start_returns: "fst (click_start w tr) = Inr ()"
  by (simp add: click_start_def io_try_def io_return_def split: prod.splits sum.splits)

lemma final_submit_returns: "fst (final_submit w tr) = Inr ()"
  by (simp add: final_submit_def io_bind_def io_try_def say_def split: prod.splits sum.splits)

lemma no_close_click_start: "adds_only (\<lambda>ev. ev \<noteq> BrowserClose) (click_start w)"
  by (simp add: click_start_def adds_only_try adds_only_bind adds_only_call
      adds_only_call_unit adds_only_return)

lemma no_close_final_submit: "adds_only (\<lambda>ev. ev \<noteq> BrowserClose) (final_submit w)"
  by (simp add: final_submit_def adds_only_try adds_only_bind adds_only_call_unit
      adds_only_say)

lemma no_close_fill_fields: "adds_only (\<lambda>ev. ev \<noteq> BrowserClose) (fill_fields w answers idx fs)"
  by (induction fs arbitrary: idx)
    (simp_all add: adds_only_return adds_only_bind adds_only_call_unit adds_only_lift
      adds_only_say adds_only_handle_field)

lemma returns_adding:
  assumes "adds_only P m" and "fst (m tr) = Inr ()"
  shows "\<exists>es. m tr = (Inr (), tr @ es) \<and> list_all P es"
  using adds_onlyD [OF assms(1), of tr] assms(2) by (auto simp: prod_eq_iff)

lemma session_run:
  assumes quiet: "\<forall>tr' ev. ev \<in> {Launch HEADLESS, NewPage, SetDefaultTimeout 25000, Goto url,
        WaitForLoadState ''networkidle'', WaitForTimeout 500} \<longrightarrow> fails w tr' ev = None"
    and lookups: "\<forall>g \<in> set flds. \<exists>b. provided_answer answers g = Inr b"
    and opened: "opened = tr @ [Launch HEADLESS, NewPage, SetDefaultTimeout 25000, Goto url,
                    WaitForLoadState ''networkidle'']"
  shows "\<exists>es1 es2 es3.
           click_start w opened = (Inr (), opened @ es1) \<and>
           fill_fields w answers 0 flds (opened @ es1) = (Inr (), opened @ es1 @ es2) \<and>
           final_submit w (opened @ es1 @ es2) = (Inr (), opened @ es1 @ es2 @ es3) \<and>
           BrowserClose \<notin> set (es1 @ es2 @ es3) \<and>
           session w url flds answers tr =
             (case fails w (opened @ es1 @ es2 @ es3) BrowserClose of
                Some e \<Rightarrow> (Inl e, opened @ es1 @ es2 @ es3 @ [BrowserClose])
              | None \<Rightarrow> (Inr (), opened @ es1 @ es2 @ es3 @ [BrowserClose, Print MsgDone]))"
proof -
  have prep: "\<And>tr'. fails w tr' (Launch HEADLESS) = None" "\<And>tr'. fails w tr' NewPage = None"
    "\<And>tr'. fails w tr' (SetDefaultTimeout 25000) = None" "\<And>tr'. fails w tr' (Goto url) = None"
    "\<And>tr'. fails w tr' (WaitForLoadState ''networkidle'') = None"
    "\<And>tr'. fails w tr' (WaitForTimeout 500) = None"
    using quiet by simp_all
  obtain es1 where c: "click_start w opened = (Inr (), opened @ es1)"
    and es1: "list_all (\<lambda>ev. ev \<noteq> BrowserClose) es1"
    using returns_adding [OF no_close_click_start click_start_returns] by blast
  have "fst (fill_fields w answers 0 flds (opened @ es1)) = Inr ()"
    using fill_fields_visits_all [of w flds answers 0 "opened @ es1"] prep(6) lookups by simp
  from returns_adding [OF no_close_fill_fields this]
  obtain es2 where f: "fill_fields w answers 0 flds (opened @ es1) = (Inr (), (opened @ es1) @ es2)"
    and es2: "list_all (\<lambda>ev. ev \<noteq> BrowserClose) es2"
    by blast
  obtain es3 where s: "final_submit w ((opened @ es1) @ es2) = (Inr (), ((opened @ es1) @ es2) @ es3)"
    and es3: "list_all (\<lambda>ev. ev \<noteq> BrowserClose) es3"
    using returns_adding [OF no_close_final_submit final_submit_returns] by blast
  have none: "BrowserClose \<notin> set (es1 @ es2 @ es3)"
    using es1 es2 es3 by (auto simp: list_all_iff)
  have c': "click_start w (tr @ [Launch HEADLESS, NewPage, SetDefaultTimeout 25000, Goto url,
                    WaitForLoadState ''networkidle'']) = (Inr (), opened @ es1)"
    using c opened by simp
  have run: "session w url flds answers tr =
      (case fails w (opened @ es1 @ es2 @ es3) BrowserClose of
         Some e \<Rightarrow> (Inl e, opened @ es1 @ es2 @ es3 @ [BrowserClose])
       | None \<Rightarrow> (Inr (), opened @ es1 @ es2 @ es3 @ [BrowserClose, Print MsgDone]))"
    using prep c' f s
    by (simp add: session_def io_bind_def call_unit_run say_def split: option.splits)
  show ?thesis
    using c f s none run
    by (intro exI [of _ es1] exI [of _ es2] exI [of _ es3]) simp
qed

lemma fill_and_submit_form_run:
  "fails w (tr @ [Print MsgStep4]) PwStart = None \<Longrightarrow>
   session w url flds answers (tr @ [Print MsgStep4, PwStart]) = (r, tr') \<Longrightarrow>
   snd (fill_and_submit_form w url flds answers tr) = tr' @ [PwStop]"
  by (simp add: fill_and_submit_form_def with_playwright_def io_bind_def say_def call_unit_run
      split: option.splits)

lemma fails_hostile:
  "fails (hostile url) tr ev =
     (if ev \<in> {PwStart, PwStop, Launch HEADLESS, NewPage, SetDefaultTimeout 25000, Goto url,
                WaitForLoadState ''networkidle'', WaitForTimeout 500, BrowserClose}
      then None else Some (LibraryError ''Error''))"
  by (simp add: hostile_def)

text \<open>
  Claim C9, as stated, fails: when the navigation raises, the exception leaves
  \<open>fill_and_submit_form\<close> and the browser that was launched is never closed by the
  function; only the enclosing Playwright context is left.
\<close>

theorem browser_close_counterexample:
  "fill_and_submit_form (failing_on (Goto TYPEFORM_URL)) TYPEFORM_URL sample_fields sample_answers [] =
     (Inl (LibraryError ''Error''),
      [Print MsgStep4, PwStart, Launch False, NewPage, SetDefaultTimeout 25000,
       Goto ''https://form.typeform.com/to/qedCsWYt'', PwStop]) \<and>
   BrowserClose \<notin> set (snd (fill_and_submit_form (failing_on (Goto TYPEFORM_URL)) TYPEFORM_URL
                            sample_fields sample_answers []))"
  by (simp add: fill_and_submit_form_def with_playwright_def session_def io_bind_def say_def
      call_unit_run fails_failing_on TYPEFORM_URL_def TYPEFORM_FORM_ID_def HEADLESS_def)

text \<open>
  Claim C9, amended. When the start of Playwright, the launch, the creation of the page,
  the setting of the timeout, the navigation, the wait for the load state, and the settle
  wait and answer lookup of each field do not raise, the attempt consists of the opening
  of the page, then the start-button handling, then the loop over the fields, then the
  final submission, none of which closes the browser, and then the call that closes it;
  after that call only the final message (when the closing returned) and the leaving of
  the Playwright context follow. This is so whatever the start-button handling, the
  interactions of the fields and the final submission do: their exceptions are caught.
  When the navigation raises, the attempt ends there without a call that closes the
  browser, and the Playwright context is left.
\<close>

theorem browser_closed_after_session:
  "((\<forall>tr' ev. ev \<in> {PwStart, Launch HEADLESS, NewPage, SetDefaultTimeout 25000, Goto url,
        WaitForLoadState ''networkidle'', WaitForTimeout 500} \<longrightarrow> fails w tr' ev = None) \<and>
    (\<forall>g \<in> set flds. \<exists>b. provided_answer answers g = Inr b) \<and>
    opened = tr @ [Print MsgStep4, PwStart, Launch HEADLESS, NewPage, SetDefaultTimeout 25000,
                   Goto url, WaitForLoadState ''networkidle''] \<longrightarrow>
      (\<exists>es1 es2 es3.
         click_start w opened = (Inr (), opened @ es1) \<and>
         fill_fields w answers 0 flds (opened @ es1) = (Inr (), opened @ es1 @ es2) \<and>
         final_submit w (opened @ es1 @ es2) = (Inr (), opened @ es1 @ es2 @ es3) \<and>
         BrowserClose \<notin> set (es1 @ es2 @ es3) \<and>
         snd (fill_and_submit_form w url flds answers tr) =
           opened @ es1 @ es2 @ es3 @ BrowserClose #
             (case fails w (opened @ es1 @ es2 @ es3) BrowserClose of
                None \<Rightarrow> [Print MsgDone]
              | Some e \<Rightarrow> []) @
             [PwStop]) \<and>
      filter (\<lambda>ev. ev = BrowserClose)
        (drop (length tr) (snd (fill_and_submit_form w url flds answers tr))) = [BrowserClose]) \<and>
   ((\<forall>tr' ev. ev \<in> {PwStart, Launch HEADLESS, NewPage, SetDefaultTimeout 25000} \<longrightarrow>
        fails w tr' ev = None) \<and>
    (\<exists>e. fails w (tr @ [Print MsgStep4, PwStart, Launch HEADLESS, NewPage, SetDefaultTimeout 25000])
          (Goto url) = Some e) \<longrightarrow>
      (\<exists>e. fst (fill_and_submit_form w url flds answers tr) = Inl e) \<and>
      snd (fill_and_submit_form w url flds answers tr) =
        tr @ [Print MsgStep4, PwStart, Launch HEADLESS, NewPage, SetDefaultTimeout 25000, Goto url,
              PwStop])"
proof (intro conjI impI)
  assume h: "(\<forall>tr' ev. ev \<in> {PwStart, Launch HEADLESS, NewPage, SetDefaultTimeout 25000, Goto url,
        WaitForLoadState ''networkidle'', WaitForTimeout 500} \<longrightarrow> fails w tr' ev = None) \<and>
    (\<forall>g \<in> set flds. \<exists>b. provided_answer answers g = Inr b) \<and>
    opened = tr @ [Print MsgStep4, PwStart, Launch HEADLESS, NewPage, SetDefaultTimeout 25000,
                   Goto url, WaitForLoadState ''networkidle'']"
  then have start: "fails w (tr @ [Print MsgStep4]) PwStart = None" by simp
  from h have quiet: "\<forall>tr' ev. ev \<in> {Launch HEADLESS, NewPage, SetDefaultTimeout 25000, Goto url,
        WaitForLoadState ''networkidle'', WaitForTimeout 500} \<longrightarrow> fails w tr' ev = None"
    and lookups: "\<forall>g \<in> set flds. \<exists>b. provided_answer answers g = Inr b"
    and opened: "opened = (tr @ [Print MsgStep4, PwStart]) @
        [Launch HEADLESS, NewPage, SetDefaultTimeout 25000, Goto url,
         WaitForLoadState ''networkidle'']"
    by simp_all
  from session_run [OF quiet lookups opened]
  obtain es1 es2 es3 where
    c: "click_start w opened = (Inr (), opened @ es1)"
    and f: "fill_fields w answers 0 flds (opened @ es1) = (Inr (), opened @ es1 @ es2)"
    and s: "final_submit w (opened @ es1 @ es2) = (Inr (), opened @ es1 @ es2 @ es3)"
    and none: "BrowserClose \<notin> set (es1 @ es2 @ es3)"
    and run: "session w url flds answers (tr @ [Print MsgStep4, PwStart]) =
             (case fails w (opened @ es1 @ es2 @ es3) BrowserClose of
                Some e \<Rightarrow> (Inl e, opened @ es1 @ es2 @ es3 @ [BrowserClose])
              | None \<Rightarrow> (Inr (), opened @ es1 @ es2 @ es3 @ [BrowserClose, Print MsgDone]))"
    by blast
  have whole: "snd (fill_and_submit_form w url flds answers tr) =
           opened @ es1 @ es2 @ es3 @ BrowserClose #
             (case fails w (opened @ es1 @ es2 @ es3) BrowserClose of
                None \<Rightarrow> [Print MsgDone]
              | Some e \<Rightarrow> []) @
             [PwStop]"
  proof (cases "fails w (opened @ es1 @ es2 @ es3) BrowserClose")
    case None
    with run have "session w url flds answers (tr @ [Print MsgStep4, PwStart]) =
        (Inr (), opened @ es1 @ es2 @ es3 @ [BrowserClose, Print MsgDone])" by simp
    from fill_and_submit_form_run [OF start this] None show ?thesis by simp
  next
    case (Some e)
    with run have "session w url flds answers (tr @ [Print MsgStep4, PwStart]) =
        (Inl e, opened @ es1 @ es2 @ es3 @ [BrowserClose])" by simp
    from fill_and_submit_form_run [OF start this] Some show ?thesis by simp
  qed
  show "\<exists>es1 es2 es3.
         click_start w opened = (Inr (), opened @ es1) \<and>
         fill_fields w answers 0 flds (opened @ es1) = (Inr (), opened @ es1 @ es2) \<and>
         final_submit w (opened @ es1 @ es2) = (Inr (), opened @ es1 @ es2 @ es3) \<and>
         BrowserClose \<notin> set (es1 @ es2 @ es3) \<and>
         snd (fill_and_submit_form w url flds answers tr) =
           opened @ es1 @ es2 @ es3 @ BrowserClose #
             (case fails w (opened @ es1 @ es2 @ es3) BrowserClose of
                None \<Rightarrow> [Print MsgDone]
              | Some e \<Rightarrow> []) @
             [PwStop]"
    using c f s none whole by blast
  have quiet_rest: "filter (\<lambda>ev. ev = BrowserClose) (es1 @ es2 @ es3) = []"
    using none by (auto simp: filter_empty_conv)
  have tail: "filter (\<lambda>ev. ev = BrowserClose)
      (case fails w (opened @ es1 @ es2 @ es3) BrowserClose of
         None \<Rightarrow> [Print MsgDone] | Some e \<Rightarrow> []) = []"
    by (simp split: option.splits)
  from h have shape: "opened = tr @ [Print MsgStep4, PwStart, Launch HEADLESS, NewPage,
      SetDefaultTimeout 25000, Goto url, WaitForLoadState ''networkidle'']" by simp
  show "filter (\<lambda>ev. ev = BrowserClose)
        (drop (length tr) (snd (fill_and_submit_form w url flds answers tr))) = [BrowserClose]"
    using quiet_rest tail by (simp add: whole shape)
next
  assume h: "(\<forall>tr' ev. ev \<in> {PwStart, Launch HEADLESS, NewPage, SetDefaultTimeout 25000} \<longrightarrow>
        fails w tr' ev = None) \<and>
    (\<exists>e. fails w (tr @ [Print MsgStep4, PwStart, Launch HEADLESS, NewPage, SetDefaultTimeout 25000])
          (Goto url) = Some e)"
  then obtain e where e: "fails w (tr @ [Print MsgStep4, PwStart, Launch HEADLESS, NewPage,
      SetDefaultTimeout 25000]) (Goto url) = Some e" by blast
  from h have start: "fails w (tr @ [Print MsgStep4]) PwStart = None" by simp
  have run: "session w url flds answers (tr @ [Print MsgStep4, PwStart]) =
      (Inl e, tr @ [Print MsgStep4, PwStart, Launch HEADLESS, NewPage, SetDefaultTimeout 25000,
                    Goto url])"
    using h e by (simp add: session_def io_bind_def call_unit_run)
  show "\<exists>e. fst (fill_and_submit_form w url flds answers tr) = Inl e"
    using start run
    by (simp add: fill_and_submit_form_def with_playwright_def io_bind_def say_def call_unit_run
        split: option.splits)
  show "snd (fill_and_submit_form w url flds answers tr) =
        tr @ [Print MsgStep4, PwStart, Launch HEADLESS, NewPage, SetDefaultTimeout 25000, Goto url,
              PwStop]"
    by (simp add: fill_and_submit_form_run [OF start run])
qed

theorem browser_closed_after_session_witness:
  "fails (hostile TYPEFORM_URL) [] (Goto TYPEFORM_URL) = None \<and>
   fails (hostile TYPEFORM_URL) [] (KeyType ''a@b.com'') = Some (LibraryError ''Error'') \<and>
   provided_answer sample_answers (sample_field ''q1'' ''Email'' ''short_text'') =
     Inr (PStr ''a@b.com'') \<and>
   provided_answer sample_answers (sample_field ''q2'' ''Interest'' ''multiple_choice'') =
     Inr (PStr ''0'') \<and>
   (\<exists>es. snd (fill_and_submit_form (hostile TYPEFORM_URL) TYPEFORM_URL sample_fields
                sample_answers []) =
           [Print MsgStep4, PwStart, Launch HEADLESS, NewPage, SetDefaultTimeout 25000,
            Goto TYPEFORM_URL, WaitForLoadState ''networkidle''] @ es @
           [BrowserClose, Print MsgDone, PwStop] \<and>
         BrowserClose \<notin> set es)"
proof -
  have prep: "\<forall>tr' ev. ev \<in> {PwStart, Launch HEADLESS, NewPage, SetDefaultTimeout 25000,
        Goto TYPEFORM_URL, WaitForLoadState ''networkidle'', WaitForTimeout 500} \<longrightarrow>
        fails (hostile TYPEFORM_URL) tr' ev = None"
    by (simp add: fails_hostile)
  have each:
    "provided_answer sample_answers (sample_field ''q1'' ''Email'' ''short_text'') =
       Inr (PStr ''a@b.com'')"
    "provided_answer sample_answers (sample_field ''q2'' ''Interest'' ''multiple_choice'') =
       Inr (PStr ''0'')"
    by (simp_all add: sample_answers_def sample_field_sel provided_answer_def dict_get_def)
  then have lookups: "\<forall>g \<in> set sample_fields. \<exists>b. provided_answer sample_answers g = Inr b"
    by (simp add: sample_fields_def)
  let ?opened = "[] @ [Print MsgStep4, PwStart, Launch HEADLESS, NewPage, SetDefaultTimeout 25000,
                   Goto TYPEFORM_URL, WaitForLoadState ''networkidle'']"
  from prep lookups
    browser_closed_after_session
      [where url = TYPEFORM_URL and w = "hostile TYPEFORM_URL" and flds = sample_fields
         and answers = sample_answers and tr = "[]" and opened = ?opened]
  obtain es1 es2 es3 where
    none: "BrowserClose \<notin> set (es1 @ es2 @ es3)"
    and whole: "snd (fill_and_submit_form (hostile TYPEFORM_URL) TYPEFORM_URL sample_fields
                  sample_answers []) =
           ?opened @ es1 @ es2 @ es3 @ BrowserClose #
             (case fails (hostile TYPEFORM_URL) (?opened @ es1 @ es2 @ es3) BrowserClose of
                None \<Rightarrow> [Print MsgDone]
              | Some e \<Rightarrow> []) @
             [PwStop]"
    by blast
  have closed: "\<exists>es. snd (fill_and_submit_form (hostile TYPEFORM_URL) TYPEFORM_URL sample_fields
                sample_answers []) =
           [Print MsgStep4, PwStart, Launch HEADLESS, NewPage, SetDefaultTimeout 25000,
            Goto TYPEFORM_URL, WaitForLoadState ''networkidle''] @ es @
           [BrowserClose, Print MsgDone, PwStop] \<and>
         BrowserClose \<notin> set es"
    using none whole
    by (intro exI [of _ "es1 @ es2 @ es3"]) (simp add: fails_hostile)
  show ?thesis
    using closed each by (simp add: fails_hostile)
qed

subsection \<open>A reply that is no JSON\<close>

lemma map_row_to_typeform_run:
  "map_row_to_typeform w flds row tr =
     (case fails w (tr @ [Print MsgStep2]) (ChatCompletion ''gpt-5'' flds row) of
        Some e \<Rightarrow> (Inl e, tr @ [Print MsgStep2, ChatCompletion ''gpt-5'' flds row])
      | None \<Rightarrow>
          (json_loads w (reply_content w (tr @ [Print MsgStep2])),
           tr @ [Print MsgStep2, ChatCompletion ''gpt-5'' flds row]))"
  by (simp add: map_row_to_typeform_def io_bind_def io_lift_def say_def call_run
      split: option.splits)

lemma chatty_sel:
  "fails chatty tr ev = None" "table_rows chatty tr = sample_rows"
  "form_json chatty tr = PDict []" "reply_content chatty tr = ''Sure! Here is the JSON: {}''"
  "json_loads chatty ''Sure! Here is the JSON: {}'' = Inl ValueError"
  by (simp_all add: chatty_def calm_def)

text \<open>
  Claim C8, as stated, fails: with two rows and a reply that is no JSON, the run ends with
  the parser's exception while the first row is mapped; the completion service is never
  asked about the second row, and no browser is started for either.
\<close>

theorem bad_reply_counterexample:
  "main chatty [] =
     (Inl ValueError,
      [SupabaseSelect, Print MsgStep1, RequestsGet ''https://api.typeform.com/forms/qedCsWYt'',
       RaiseForStatus, RespJson, Print MsgStep2,
       ChatCompletion ''gpt-5'' []
         (PDict [(''email'', PStr ''a@b.com''), (''interest'', PStr ''networking'')])]) \<and>
   ChatCompletion ''gpt-5'' []
     (PDict [(''email'', PStr ''c@d.org''), (''interest'', PStr ''storage'')])
     \<notin> set (snd (main chatty []))"
  by (simp add: main_def get_rows_def get_form_fields_run fetch_fields_def parse_fields_def
      get_or_def py_iter_def sum_bind_def io_bind_def io_lift_def call_run call_unit_run
      map_row_to_typeform_run chatty_sel sample_rows_def TYPEFORM_FORM_ID_def)

text \<open>
  Claim C8, amended. When the completion call returns and its content is not parseable as
  JSON, \<open>map_row_to_typeform\<close> raises the parser's exception. The main loop has no
  handler: an exception of \<open>map_row_to_typeform\<close> ends the loop at that row, so that
  neither this row nor any later row is filled in; a row that is mapped and submitted
  without an exception is followed by the rest of the batch.
\<close>

theorem bad_reply_ends_the_run:
  "(\<forall>e. fails w (tr @ [Print MsgStep2]) (ChatCompletion ''gpt-5'' flds row) = None \<and>
        json_loads w (reply_content w (tr @ [Print MsgStep2])) = Inl e \<longrightarrow>
      map_row_to_typeform w flds row tr =
        (Inl e, tr @ [Print MsgStep2, ChatCompletion ''gpt-5'' flds row])) \<and>
   (\<forall>e. fst (map_row_to_typeform w flds row tr) = Inl e \<longrightarrow>
      run_rows w flds (row # rows) tr = (Inl e, snd (map_row_to_typeform w flds row tr))) \<and>
   (\<forall>m tr1 tr2.
      map_row_to_typeform w flds row tr = (Inr m, tr1) \<and>
      fill_and_submit_form w TYPEFORM_URL flds m (tr1 @ [Print (MsgMapping m)]) = (Inr (), tr2) \<longrightarrow>
      run_rows w flds (row # rows) tr = run_rows w flds rows tr2)"
proof (intro conjI allI impI)
  fix e
  assume "fails w (tr @ [Print MsgStep2]) (ChatCompletion ''gpt-5'' flds row) = None \<and>
        json_loads w (reply_content w (tr @ [Print MsgStep2])) = Inl e"
  then show "map_row_to_typeform w flds row tr =
        (Inl e, tr @ [Print MsgStep2, ChatCompletion ''gpt-5'' flds row])"
    by (simp add: map_row_to_typeform_run)
next
  fix e
  assume "fst (map_row_to_typeform w flds row tr) = Inl e"
  then show "run_rows w flds (row # rows) tr = (Inl e, snd (map_row_to_typeform w flds row tr))"
    by (cases "map_row_to_typeform w flds row tr") (simp add: io_bind_def)
next
  fix m tr1 tr2
  assume "map_row_to_typeform w flds row tr = (Inr m, tr1) \<and>
      fill_and_submit_form w TYPEFORM_URL flds m (tr1 @ [Print (MsgMapping m)]) = (Inr (), tr2)"
  then show "run_rows w flds (row # rows) tr = run_rows w flds rows tr2"
    by (simp add: io_bind_def say_def)
qed

theorem bad_reply_ends_the_run_witness:
  "fails chatty [Print MsgStep2] (ChatCompletion ''gpt-5'' [] (hd sample_rows)) = None \<and>
   json_loads chatty (reply_content chatty [Print MsgStep2]) = Inl ValueError \<and>
   map_row_to_typeform chatty [] (hd sample_rows) [] =
     (Inl ValueError, [Print MsgStep2, ChatCompletion ''gpt-5'' [] (hd sample_rows)]) \<and>
   run_rows chatty [] (hd sample_rows # tl sample_rows) [] =
     (Inl ValueError, [Print MsgStep2, ChatCompletion ''gpt-5'' [] (hd sample_rows)])"
  using bad_reply_ends_the_run [of chatty "[]" "[]" "hd sample_rows" "tl sample_rows"]
  by (simp add: chatty_sel)

end
